theory Spec2Isabelle
  imports Complex_Main
begin

section \<open>Numbers of the tensor library\<close>

text \<open>
  The tensors of \<^verbatim>\<open>embedding_service.py\<close> hold 32-bit floating-point numbers, the default
  of the model library. A finite value is a real number; the infinities and NaN of IEEE
  arithmetic are kept apart, because HOL's own \<open>x / 0 = 0\<close> is not what the library
  computes; and an operation whose exact result lies beyond the largest 32-bit float
  returns an infinity. Rounding and the sign of zero are not modelled.
\<close>

datatype fl = Fin real | PInf | NInf | NaN

definition max_float :: real where
  "max_float = (2 - 1 / 2 ^ 23) * 2 ^ 127"

definition overflow :: "real \<Rightarrow> fl" where
  "overflow x = (if max_float < x then PInf else if x < - max_float then NInf else Fin x)"

fun fl_add :: "fl \<Rightarrow> fl \<Rightarrow> fl" where
  "fl_add (Fin a) (Fin b) = overflow (a + b)"
| "fl_add NaN _ = NaN"
| "fl_add _ NaN = NaN"
| "fl_add PInf NInf = NaN"
| "fl_add NInf PInf = NaN"
| "fl_add PInf _ = PInf"
| "fl_add _ PInf = PInf"
| "fl_add NInf _ = NInf"
| "fl_add _ NInf = NInf"

fun fl_div :: "fl \<Rightarrow> fl \<Rightarrow> fl" where
  "fl_div (Fin a) (Fin b) =
     (if b \<noteq> 0 then overflow (a / b)
      else if a = 0 then NaN
      else if 0 < a then PInf else NInf)"
| "fl_div NaN _ = NaN"
| "fl_div _ NaN = NaN"
| "fl_div (Fin a) PInf = Fin 0"
| "fl_div (Fin a) NInf = Fin 0"
| "fl_div PInf (Fin b) = (if 0 \<le> b then PInf else NInf)"
| "fl_div NInf (Fin b) = (if 0 \<le> b then NInf else PInf)"
| "fl_div PInf PInf = NaN"
| "fl_div PInf NInf = NaN"
| "fl_div NInf PInf = NaN"
| "fl_div NInf NInf = NaN"

fun fl_sq :: "fl \<Rightarrow> fl" where
  "fl_sq (Fin a) = overflow (a * a)"
| "fl_sq NaN = NaN"
| "fl_sq PInf = PInf"
| "fl_sq NInf = PInf"

fun fl_sqrt :: "fl \<Rightarrow> fl" where
  "fl_sqrt (Fin a) = (if 0 \<le> a then Fin (sqrt a) else NaN)"
| "fl_sqrt NaN = NaN"
| "fl_sqrt PInf = PInf"
| "fl_sqrt NInf = NaN"

fun clamp_min :: "fl \<Rightarrow> real \<Rightarrow> fl" where
  "clamp_min (Fin a) m = Fin (max a m)"
| "clamp_min NaN m = NaN"
| "clamp_min PInf m = PInf"
| "clamp_min NInf m = Fin m"

definition fl_sum :: "fl list \<Rightarrow> fl" where
  "fl_sum xs = foldr fl_add xs (Fin 0)"

text \<open>The Euclidean norm of a vector: the square root of the sum of the squares.\<close>

definition l2_norm :: "fl list \<Rightarrow> fl" where
  "l2_norm v = fl_sqrt (fl_sum (map fl_sq v))"

section \<open>Tensors\<close>

text \<open>
  A tensor is its shape and its elements. \<open>tensor3\<close> is a float tensor of shape
  (batch, sequence, hidden), \<open>tensor2\<close> a float tensor of shape (batch, hidden) and
  \<open>itensor2\<close> an integer tensor of shape (batch, sequence), as the tokenizer returns for
  \<^verbatim>\<open>input_ids\<close> and \<^verbatim>\<open>attention_mask\<close>.
\<close>

record tensor3 =
  dim0 :: nat
  dim1 :: nat
  dim2 :: nat
  elem3 :: "nat \<Rightarrow> nat \<Rightarrow> nat \<Rightarrow> fl"

record tensor2 =
  rows :: nat
  cols :: nat
  elem2 :: "nat \<Rightarrow> nat \<Rightarrow> fl"

record itensor2 =
  irows :: nat
  icols :: nat
  ielem :: "nat \<Rightarrow> nat \<Rightarrow> int"

text \<open>\<^verbatim>\<open>t.tolist()\<close> of a (batch, hidden) tensor, and \<^verbatim>\<open>t[b].tolist()\<close> of one of its rows.\<close>

definition row_tolist :: "tensor2 \<Rightarrow> nat \<Rightarrow> fl list" where
  "row_tolist t b = map (elem2 t b) [0..<cols t]"

definition tolist :: "tensor2 \<Rightarrow> fl list list" where
  "tolist t = map (row_tolist t) [0..<rows t]"

section \<open>Exceptions\<close>

datatype exn_class =
  JSONDecodeError | UnicodeDecodeError | ValueError | TypeError | AttributeError | IndexError
| RuntimeError
| OtherError

text \<open>
  An exception is its class and \<^verbatim>\<open>str(e)\<close>. Every class here is a subclass of Python's
  \<^verbatim>\<open>Exception\<close>.
\<close>

record exn =
  exn_class :: exn_class
  exn_msg :: string

definition raise :: "exn_class \<Rightarrow> string \<Rightarrow> exn" where
  "raise c m = \<lparr>exn_class = c, exn_msg = m\<rparr>"

section \<open>Pooling and normalisation\<close>

text \<open>
  Broadcasting of the tensor library: two sizes are compatible when they are equal or one
  of them is 1; the result has the other size, and the tensor of size 1 is read at index 0.
\<close>

definition bc_ok :: "nat \<Rightarrow> nat \<Rightarrow> bool" where
  "bc_ok m n \<longleftrightarrow> m = n \<or> m = 1 \<or> n = 1"

definition bc_dim :: "nat \<Rightarrow> nat \<Rightarrow> nat" where
  "bc_dim m n = (if m = 1 then n else m)"

definition bc_idx :: "nat \<Rightarrow> nat \<Rightarrow> nat" where
  "bc_idx m i = (if m = 1 then 0 else i)"

text \<open>
  \<^verbatim>\<open>last_hidden_states.masked_fill(~attention_mask[..., None].bool(), 0.0)\<close>: the mask gets
  a trailing axis of size 1, an entry is true when it is not zero, and the hidden vector
  is replaced by zeros where the negated mask is true.
\<close>

definition masked_fill :: "tensor3 \<Rightarrow> itensor2 \<Rightarrow> exn + tensor3" where
  "masked_fill h m =
     (if bc_ok (dim0 h) (irows m) \<and> bc_ok (dim1 h) (icols m) then
        Inr \<lparr>dim0 = bc_dim (dim0 h) (irows m),
             dim1 = bc_dim (dim1 h) (icols m),
             dim2 = dim2 h,
             elem3 = (\<lambda>b s d.
               if \<not> (ielem m (bc_idx (irows m) b) (bc_idx (icols m) s) \<noteq> 0) then Fin 0
               else elem3 h (bc_idx (dim0 h) b) (bc_idx (dim1 h) s) d)\<rparr>
      else Inl (raise RuntimeError ''The size of tensor a must match the size of tensor b''))"

text \<open>\<^verbatim>\<open>t.sum(dim=1)\<close> of a float tensor and of an integer tensor.\<close>

definition sum_dim1 :: "tensor3 \<Rightarrow> tensor2" where
  "sum_dim1 t =
     \<lparr>rows = dim0 t, cols = dim2 t,
      elem2 = (\<lambda>b d. fl_sum (map (\<lambda>s. elem3 t b s d) [0..<dim1 t]))\<rparr>"

definition isum_dim1 :: "itensor2 \<Rightarrow> nat \<Rightarrow> int" where
  "isum_dim1 m b = sum_list (map (ielem m b) [0..<icols m])"

text \<open>
  \<^verbatim>\<open>def average_pool(last_hidden_states, attention_mask):
      last_hidden = last_hidden_states.masked_fill(~attention_mask[..., None].bool(), 0.0)
      return last_hidden.sum(dim=1) / attention_mask.sum(dim=1)[..., None]\<close>
  The divisor has shape (batch, 1) and is broadcast along the hidden axis.
\<close>

definition average_pool :: "tensor3 \<Rightarrow> itensor2 \<Rightarrow> exn + tensor2" where
  "average_pool last_hidden_states attention_mask =
     (case masked_fill last_hidden_states attention_mask of
        Inl e \<Rightarrow> Inl e
      | Inr last_hidden \<Rightarrow>
          (let total = sum_dim1 last_hidden in
           if bc_ok (rows total) (irows attention_mask) then
             Inr \<lparr>rows = bc_dim (rows total) (irows attention_mask),
                  cols = cols total,
                  elem2 = (\<lambda>b d.
                    fl_div (elem2 total (bc_idx (rows total) b) d)
                      (Fin (of_int (isum_dim1 attention_mask
                                      (bc_idx (irows attention_mask) b)))))\<rparr>
           else Inl (raise RuntimeError
                       ''The size of tensor a must match the size of tensor b'')))"

text \<open>
  \<^verbatim>\<open>F.normalize(x, p=2, dim=1)\<close> of the tensor library, with its default \<^verbatim>\<open>eps=1e-12\<close>:
  every row is divided by the larger of its Euclidean norm and \<open>eps\<close>.
\<close>

definition eps :: real where
  "eps = 1 / 10 ^ 12"

definition normalize :: "tensor2 \<Rightarrow> tensor2" where
  "normalize x =
     \<lparr>rows = rows x, cols = cols x,
      elem2 = (\<lambda>b d. fl_div (elem2 x b d) (clamp_min (l2_norm (row_tolist x b)) eps))\<rparr>"

section \<open>Python values\<close>

text \<open>
  The values that \<^verbatim>\<open>json.loads\<close> returns, and that flow through the untyped functions of
  the service: \<^verbatim>\<open>None\<close>, booleans, integers, floats, strings, lists and dictionaries
  (an association list, read with \<open>map_of\<close>).
\<close>

datatype pyval =
  PNone
| PBool bool
| PInt int
| PFloat fl
| PStr string
| PList "pyval list"
| PDict "(string \<times> pyval) list"

text \<open>The truth value of a Python value (\<^verbatim>\<open>if x:\<close>, \<^verbatim>\<open>not x\<close>).\<close>

fun py_truthy :: "pyval \<Rightarrow> bool" where
  "py_truthy PNone = False"
| "py_truthy (PBool b) = b"
| "py_truthy (PInt i) = (i \<noteq> 0)"
| "py_truthy (PFloat x) = (x \<noteq> Fin 0)"
| "py_truthy (PStr s) = (s \<noteq> [])"
| "py_truthy (PList xs) = (xs \<noteq> [])"
| "py_truthy (PDict kvs) = (kvs \<noteq> [])"

fun isinstance_list :: "pyval \<Rightarrow> bool" where
  "isinstance_list (PList xs) = True"
| "isinstance_list _ = False"

fun type_name :: "pyval \<Rightarrow> string" where
  "type_name PNone = ''NoneType''"
| "type_name (PBool b) = ''bool''"
| "type_name (PInt i) = ''int''"
| "type_name (PFloat x) = ''float''"
| "type_name (PStr s) = ''str''"
| "type_name (PList xs) = ''list''"
| "type_name (PDict kvs) = ''dict''"

text \<open>
  \<^verbatim>\<open>obj.get(key, default)\<close>: a dictionary answers with the value or the default; every
  other value has no attribute \<^verbatim>\<open>get\<close>.
\<close>

fun py_get :: "pyval \<Rightarrow> string \<Rightarrow> pyval \<Rightarrow> exn + pyval" where
  "py_get (PDict kvs) k d = Inr (case map_of kvs k of Some v \<Rightarrow> v | None \<Rightarrow> d)"
| "py_get v k d =
     Inl (raise AttributeError
            ([CHR 0x27] @ type_name v @ [CHR 0x27] @ '' object has no attribute ''
             @ [CHR 0x27] @ ''get'' @ [CHR 0x27]))"

text \<open>Decimal digits of an integer, as \<^verbatim>\<open>str\<close> prints it.\<close>

definition digit :: "nat \<Rightarrow> char" where
  "digit d = ''0123456789'' ! d"

function decimal :: "nat \<Rightarrow> string" where
  "decimal n = (if 10 \<le> n then decimal (n div 10) @ [digit (n mod 10)] else [digit n])"
  by pat_completeness auto
termination
  by (relation "measure id") auto

definition int_str :: "int \<Rightarrow> string" where
  "int_str k = (if 0 \<le> k then decimal (nat k) else CHR ''-'' # decimal (nat (- k)))"

section \<open>The external collaborators\<close>

text \<open>
  \<^verbatim>\<open>encoded_input\<close>: the token-id matrix and the attention mask the tokenizer returns.
\<close>

record encoded =
  input_ids :: itensor2
  attention_mask :: itensor2

text \<open>
  The tokenizer handle, called as
  \<^verbatim>\<open>tokenizer(x, max_length=512, padding=True, truncation=True, return_tensors='pt')\<close>
  with a value \<open>x\<close> and the maximal length, and the model handle, called as
  \<^verbatim>\<open>model(**encoded_input)\<close> and read at \<^verbatim>\<open>.last_hidden_state\<close>. Both may raise.
\<close>

type_synonym tok = "pyval \<Rightarrow> nat \<Rightarrow> exn + encoded"
type_synonym mdl = "encoded \<Rightarrow> exn + tensor3"

text \<open>
  What the service takes from outside: the two loaders of the model library, the JSON
  decoder, and \<^verbatim>\<open>str\<close> of the values whose printed form is not written out here (floats,
  lists and dictionaries).
\<close>

record extern =
  tokenizer_from_pretrained :: "string \<Rightarrow> exn + tok"
  model_from_pretrained :: "string \<Rightarrow> exn + mdl"
  json_loads :: "string \<Rightarrow> exn + pyval"
  py_repr :: "pyval \<Rightarrow> string"

text \<open>The conversion an f-string applies to \<^verbatim>\<open>{x}\<close>.\<close>

fun py_str :: "extern \<Rightarrow> pyval \<Rightarrow> string" where
  "py_str ex (PStr s) = s"
| "py_str ex PNone = ''None''"
| "py_str ex (PBool b) = (if b then ''True'' else ''False'')"
| "py_str ex (PInt i) = int_str i"
| "py_str ex v = py_repr ex v"

section \<open>The state of the process\<close>

text \<open>
  What the process does to the outside, in order: a line written to standard error, a
  response written to standard output (the dictionary given to \<^verbatim>\<open>json.dumps\<close>), a line
  read from standard input, and the two calls that load the tokenizer and the model.
\<close>

datatype event =
  Stderr string
| Stdout pyval
| StdinLine string
| LoadTokenizer string
| LoadModel string

text \<open>The two module globals \<^verbatim>\<open>tokenizer\<close> and \<^verbatim>\<open>model\<close>, and the events so far.\<close>

record state =
  tokenizer :: "tok option"
  model :: "mdl option"
  events :: "event list"

definition emit :: "event \<Rightarrow> state \<Rightarrow> state" where
  "emit e s = s\<lparr>events := events s @ [e]\<rparr>"

definition MODEL_NAME :: string where
  "MODEL_NAME = ''intfloat/multilingual-e5-large-instruct''"

definition module_state :: state where
  "module_state = \<lparr>tokenizer = None, model = None, events = []\<rparr>"

section \<open>The functions of embedding_service.py\<close>

text \<open>
  \<^verbatim>\<open>def initialize_model():
      global tokenizer, model
      if tokenizer is None or model is None:
          print("Initializing E5 model...", file=sys.stderr)
          tokenizer = AutoTokenizer.from_pretrained(MODEL_NAME)
          model = AutoModel.from_pretrained(MODEL_NAME)
          print(f"Model initialized: {MODEL_NAME}", file=sys.stderr)\<close>
\<close>

definition initialize_model :: "extern \<Rightarrow> state \<Rightarrow> (exn + unit) \<times> state" where
  "initialize_model ex s =
     (if tokenizer s = None \<or> model s = None then
        (let s1 = emit (LoadTokenizer MODEL_NAME) (emit (Stderr ''Initializing E5 model...'') s) in
         case tokenizer_from_pretrained ex MODEL_NAME of
           Inl e \<Rightarrow> (Inl e, s1)
         | Inr t \<Rightarrow>
             (let s2 = emit (LoadModel MODEL_NAME) (s1\<lparr>tokenizer := Some t\<rparr>) in
              case model_from_pretrained ex MODEL_NAME of
                Inl e \<Rightarrow> (Inl e, s2)
              | Inr m \<Rightarrow>
                  (Inr (), emit (Stderr (''Model initialized: '' @ MODEL_NAME))
                             (s2\<lparr>model := Some m\<rparr>))))
      else (Inr (), s))"

text \<open>
  \<^verbatim>\<open>def format_text_for_embedding(text, is_query=False):
      if is_query:
          task_description = "Given a web search query, retrieve relevant passages that answer the query"
          return f'Instruct: {task_description}\nQuery: {text}'
      else:
          return text\<close>
\<close>

definition task_description :: string where
  "task_description =
     ''Given a web search query, retrieve relevant passages that answer the query''"

definition format_text_for_embedding :: "extern \<Rightarrow> pyval \<Rightarrow> pyval \<Rightarrow> pyval" where
  "format_text_for_embedding ex text is_query =
     (if py_truthy is_query then
        PStr (''Instruct: '' @ task_description @ [CHR 0x0A] @ ''Query: '' @ py_str ex text)
      else text)"

text \<open>The calls of the two globals; calling \<^verbatim>\<open>None\<close> raises.\<close>

definition none_not_callable :: string where
  "none_not_callable = [CHR 0x27] @ ''NoneType'' @ [CHR 0x27] @ '' object is not callable''"

definition call_tokenizer :: "state \<Rightarrow> pyval \<Rightarrow> nat \<Rightarrow> exn + encoded" where
  "call_tokenizer s x max_length =
     (case tokenizer s of
        None \<Rightarrow> Inl (raise TypeError none_not_callable)
      | Some t \<Rightarrow> t x max_length)"

definition call_model :: "state \<Rightarrow> encoded \<Rightarrow> exn + tensor3" where
  "call_model s encoded_input =
     (case model s of
        None \<Rightarrow> Inl (raise TypeError none_not_callable)
      | Some m \<Rightarrow> m encoded_input)"

text \<open>
  \<^verbatim>\<open>def generate_embedding(text, is_query=False):
      initialize_model()
      input_text = format_text_for_embedding(text, is_query)
      encoded_input = tokenizer(input_text, max_length=512, padding=True,
                                truncation=True, return_tensors='pt')
      with torch.no_grad():
          model_output = model(**encoded_input)
      embedding = average_pool(model_output.last_hidden_state, encoded_input['attention_mask'])
      embedding = F.normalize(embedding, p=2, dim=1)
      return embedding[0].tolist()\<close>
\<close>

definition generate_embedding ::
  "extern \<Rightarrow> state \<Rightarrow> pyval \<Rightarrow> pyval \<Rightarrow> (exn + fl list) \<times> state" where
  "generate_embedding ex s text is_query =
     (case initialize_model ex s of
        (Inl e, s1) \<Rightarrow> (Inl e, s1)
      | (Inr u, s1) \<Rightarrow>
          (let input_text = format_text_for_embedding ex text is_query in
           case call_tokenizer s1 input_text 512 of
             Inl e \<Rightarrow> (Inl e, s1)
           | Inr encoded_input \<Rightarrow>
               (case call_model s1 encoded_input of
                  Inl e \<Rightarrow> (Inl e, s1)
                | Inr last_hidden_state \<Rightarrow>
                    (case average_pool last_hidden_state (attention_mask encoded_input) of
                       Inl e \<Rightarrow> (Inl e, s1)
                     | Inr pooled \<Rightarrow>
                         (let embedding = normalize pooled in
                          if 0 < rows embedding then (Inr (row_tolist embedding 0), s1)
                          else (Inl (raise IndexError
                                  ''index 0 is out of bounds for dimension 0 with size 0''),
                                s1))))))"

text \<open>The elements of a list value, as the comprehension of \<^verbatim>\<open>generate_embeddings\<close> reads them.\<close>

fun py_elements :: "pyval \<Rightarrow> pyval list" where
  "py_elements (PList xs) = xs"
| "py_elements _ = []"

text \<open>
  \<^verbatim>\<open>def generate_embeddings(texts, is_query=False):
      initialize_model()
      if not texts or not isinstance(texts, list):
          raise ValueError("Texts must be a non-empty list of strings")
      input_texts = [format_text_for_embedding(text, is_query) for text in texts]
      encoded_input = tokenizer(input_texts, max_length=512, padding=True,
                                truncation=True, return_tensors='pt')
      with torch.no_grad():
          model_output = model(**encoded_input)
      embeddings = average_pool(model_output.last_hidden_state, encoded_input['attention_mask'])
      embeddings = F.normalize(embeddings, p=2, dim=1)
      return embeddings.tolist()\<close>
\<close>

definition generate_embeddings ::
  "extern \<Rightarrow> state \<Rightarrow> pyval \<Rightarrow> pyval \<Rightarrow> (exn + fl list list) \<times> state" where
  "generate_embeddings ex s texts is_query =
     (case initialize_model ex s of
        (Inl e, s1) \<Rightarrow> (Inl e, s1)
      | (Inr u, s1) \<Rightarrow>
          if \<not> py_truthy texts \<or> \<not> isinstance_list texts then
            (Inl (raise ValueError ''Texts must be a non-empty list of strings''), s1)
          else
            (let input_texts =
                   PList (map (\<lambda>text. format_text_for_embedding ex text is_query)
                            (py_elements texts)) in
             case call_tokenizer s1 input_texts 512 of
               Inl e \<Rightarrow> (Inl e, s1)
             | Inr encoded_input \<Rightarrow>
                 (case call_model s1 encoded_input of
                    Inl e \<Rightarrow> (Inl e, s1)
                  | Inr last_hidden_state \<Rightarrow>
                      (case average_pool last_hidden_state (attention_mask encoded_input) of
                         Inl e \<Rightarrow> (Inl e, s1)
                       | Inr pooled \<Rightarrow> (Inr (tolist (normalize pooled)), s1)))))"

section \<open>The command dispatcher\<close>

definition error_response :: "string \<Rightarrow> pyval" where
  "error_response msg = PDict [(''error'', PStr msg)]"

definition status_initialized :: pyval where
  "status_initialized = PDict [(''status'', PStr ''initialized'')]"

definition embedding_response :: "fl list \<Rightarrow> pyval" where
  "embedding_response embedding = PDict [(''embedding'', PList (map PFloat embedding))]"

definition embeddings_response :: "fl list list \<Rightarrow> pyval" where
  "embeddings_response embeddings =
     PDict [(''embeddings'', PList (map (\<lambda>v. PList (map PFloat v)) embeddings))]"

text \<open>
  The body of the \<^verbatim>\<open>try\<close> block of \<^verbatim>\<open>process_command\<close>:
  \<^verbatim>\<open>command = command_json.get("command")
  if command == "initialize":
      initialize_model()
      return {"status": "initialized"}
  elif command == "generate_embedding":
      text = command_json.get("text")
      is_query = command_json.get("is_query", False)
      if not text:
          return {"error": "No text provided"}
      embedding = generate_embedding(text, is_query)
      return {"embedding": embedding}
  elif command == "generate_embeddings":
      texts = command_json.get("texts")
      is_query = command_json.get("is_query", False)
      if not texts or not isinstance(texts, list):
          return {"error": "No texts provided or invalid format"}
      embeddings = generate_embeddings(texts, is_query)
      return {"embeddings": embeddings}
  else:
      return {"error": f"Unknown command: {command}"}\<close>
  \<open>Inl\<close> is an exception that leaves the block.
\<close>

definition process_command_body :: "extern \<Rightarrow> state \<Rightarrow> pyval \<Rightarrow> (exn + pyval) \<times> state" where
  "process_command_body ex s command_json =
     (case py_get command_json ''command'' PNone of
        Inl e \<Rightarrow> (Inl e, s)
      | Inr command \<Rightarrow>
          if command = PStr ''initialize'' then
            (case initialize_model ex s of
               (Inl e, s1) \<Rightarrow> (Inl e, s1)
             | (Inr u, s1) \<Rightarrow> (Inr status_initialized, s1))
          else if command = PStr ''generate_embedding'' then
            (case py_get command_json ''text'' PNone of
               Inl e \<Rightarrow> (Inl e, s)
             | Inr text \<Rightarrow>
                 (case py_get command_json ''is_query'' (PBool False) of
                    Inl e \<Rightarrow> (Inl e, s)
                  | Inr is_query \<Rightarrow>
                      if \<not> py_truthy text then (Inr (error_response ''No text provided''), s)
                      else
                        (case generate_embedding ex s text is_query of
                           (Inl e, s1) \<Rightarrow> (Inl e, s1)
                         | (Inr embedding, s1) \<Rightarrow> (Inr (embedding_response embedding), s1))))
          else if command = PStr ''generate_embeddings'' then
            (case py_get command_json ''texts'' PNone of
               Inl e \<Rightarrow> (Inl e, s)
             | Inr texts \<Rightarrow>
                 (case py_get command_json ''is_query'' (PBool False) of
                    Inl e \<Rightarrow> (Inl e, s)
                  | Inr is_query \<Rightarrow>
                      if \<not> py_truthy texts \<or> \<not> isinstance_list texts then
                        (Inr (error_response ''No texts provided or invalid format''), s)
                      else
                        (case generate_embeddings ex s texts is_query of
                           (Inl e, s1) \<Rightarrow> (Inl e, s1)
                         | (Inr embeddings, s1) \<Rightarrow>
                             (Inr (embeddings_response embeddings), s1))))
          else (Inr (error_response (''Unknown command: '' @ py_str ex command)), s))"

text \<open>
  \<^verbatim>\<open>def process_command(command_json):
      try:
          ...
      except Exception as e:
          return {"error": str(e)}\<close>
\<close>

definition process_command :: "extern \<Rightarrow> state \<Rightarrow> pyval \<Rightarrow> pyval \<times> state" where
  "process_command ex s command_json =
     (case process_command_body ex s command_json of
        (Inl e, s1) \<Rightarrow> (error_response (exn_msg e), s1)
      | (Inr result, s1) \<Rightarrow> (result, s1))"

text \<open>
  One turn of the loop of \<^verbatim>\<open>main\<close>:
  \<^verbatim>\<open>for line in sys.stdin:
      try:
          command_json = json.loads(line)
          result = process_command(command_json)
          print(json.dumps(result), flush=True)
      except json.JSONDecodeError:
          print(json.dumps({"error": "Invalid JSON"}), flush=True)
      except Exception as e:
          print(json.dumps({"error": str(e)}), flush=True)\<close>
\<close>

definition handle_line :: "extern \<Rightarrow> state \<Rightarrow> string \<Rightarrow> state" where
  "handle_line ex s line =
     (let s0 = emit (StdinLine line) s in
      case json_loads ex line of
        Inr command_json \<Rightarrow>
          (case process_command ex s0 command_json of
             (result, s1) \<Rightarrow> emit (Stdout result) s1)
      | Inl e \<Rightarrow>
          if exn_class e = JSONDecodeError then emit (Stdout (error_response ''Invalid JSON'')) s0
          else emit (Stdout (error_response (exn_msg e))) s0)"

text \<open>
  The loop itself. \<^verbatim>\<open>for line in sys.stdin:\<close> reads and decodes the next line before the
  \<^verbatim>\<open>try\<close> is entered. The input is the list of what the reads return: a line, or the
  exception of the read (bytes that are not valid in the encoding of standard input raise
  \<^verbatim>\<open>UnicodeDecodeError\<close>). No handler stands around the read: its exception ends the loop
  and the process, and what follows on standard input is not read.
\<close>

fun main_loop :: "extern \<Rightarrow> state \<Rightarrow> (exn + string) list \<Rightarrow> exn option \<times> state" where
  "main_loop ex s [] = (None, s)"
| "main_loop ex s (Inl e # rest) = (Some e, s)"
| "main_loop ex s (Inr line # rest) = main_loop ex (handle_line ex s line) rest"

text \<open>
  \<^verbatim>\<open>def main():
      print("E5 Embedding Service started", file=sys.stderr)
      initialize_model()
      for line in sys.stdin: ...\<close>
  The call of \<^verbatim>\<open>initialize_model\<close> stands outside every \<^verbatim>\<open>try\<close> as well: an exception it
  raises ends the process. The first component of the result is the exception that ended
  the process, if any.
\<close>

definition main :: "extern \<Rightarrow> (exn + string) list \<Rightarrow> exn option \<times> state" where
  "main ex stdin =
     (let s0 = emit (Stderr ''E5 Embedding Service started'') module_state in
      case initialize_model ex s0 of
        (Inl e, s1) \<Rightarrow> (Some e, s1)
      | (Inr u, s1) \<Rightarrow> main_loop ex s1 stdin)"

section \<open>The contract of the tokenizer\<close>

text \<open>
  The tokenizer is not part of the repository. Section 4.2 (step 2) of the specification
  gives its contract on strings: every text has a row of token ids, already cut to the
  maximal length; the rows of a batch are padded on the right to the longest row of that
  batch, and the attention mask is 1 on the tokens and 0 on the padding. A single string
  is a batch of one row. What the tokenizer does with any other value is left to
  \<open>other\<close>.
\<close>

definition pad_batch :: "int \<Rightarrow> int list list \<Rightarrow> encoded" where
  "pad_batch pad rws =
     (let n = foldr max (map length rws) 0 in
      \<lparr>input_ids =
         \<lparr>irows = length rws, icols = n,
          ielem = (\<lambda>b s. if b < length rws \<and> s < length (rws ! b) then rws ! b ! s else pad)\<rparr>,
       attention_mask =
         \<lparr>irows = length rws, icols = n,
          ielem = (\<lambda>b s. if b < length rws \<and> s < length (rws ! b) then 1 else 0)\<rparr>\<rparr>)"

fun strings_of :: "pyval list \<Rightarrow> string list option" where
  "strings_of [] = Some []"
| "strings_of (PStr t # xs) = map_option ((#) t) (strings_of xs)"
| "strings_of (_ # xs) = None"

definition hf_tokenizer :: "(nat \<Rightarrow> string \<Rightarrow> int list) \<Rightarrow> int \<Rightarrow> tok \<Rightarrow> tok" where
  "hf_tokenizer enc pad other x max_length =
     (case x of
        PStr t \<Rightarrow> Inr (pad_batch pad [enc max_length t])
      | PList xs \<Rightarrow>
          (case strings_of xs of
             Some ts \<Rightarrow>
               if ts \<noteq> [] then Inr (pad_batch pad (map (enc max_length) ts))
               else other x max_length
           | None \<Rightarrow> other x max_length)
      | _ \<Rightarrow> other x max_length)"

section \<open>Notions the properties are stated with\<close>

text \<open>
  The two globals are assigned in a fixed order, the tokenizer first: from the state of a
  fresh module no state is reached where the model is set and the tokenizer is not.
\<close>

definition handles_ok :: "state \<Rightarrow> bool" where
  "handles_ok s \<longleftrightarrow> (if tokenizer s = None then model s = None else True)"

definition ready :: "state \<Rightarrow> bool" where
  "ready s \<longleftrightarrow> tokenizer s \<noteq> None \<and> model s \<noteq> None"

text \<open>The lines that the loop gets from its reads: those before the first exception.\<close>

fun lines_read :: "(exn + string) list \<Rightarrow> string list" where
  "lines_read [] = []"
| "lines_read (Inl e # rest) = []"
| "lines_read (Inr line # rest) = line # lines_read rest"

text \<open>The responses written to standard output, in order.\<close>

fun stdout_of :: "event list \<Rightarrow> pyval list" where
  "stdout_of [] = []"
| "stdout_of (Stdout r # es) = r # stdout_of es"
| "stdout_of (_ # es) = stdout_of es"

definition responses :: "state \<Rightarrow> pyval list" where
  "responses s = stdout_of (events s)"



text \<open>The shapes of a response: an error object, or one of the three success payloads.\<close>

fun is_error_response :: "pyval \<Rightarrow> bool" where
  "is_error_response (PDict [(k, PStr msg)]) = (k = ''error'')"
| "is_error_response _ = False"

fun is_float :: "pyval \<Rightarrow> bool" where
  "is_float (PFloat x) = True"
| "is_float _ = False"

fun is_vector :: "pyval \<Rightarrow> bool" where
  "is_vector (PList xs) = list_all is_float xs"
| "is_vector _ = False"

fun is_vectors :: "pyval \<Rightarrow> bool" where
  "is_vectors (PList xs) = list_all is_vector xs"
| "is_vectors _ = False"

fun is_success_response :: "pyval \<Rightarrow> bool" where
  "is_success_response (PDict [(k, v)]) =
     (if k = ''status'' then v = PStr ''initialized''
      else if k = ''embedding'' then is_vector v
      else if k = ''embeddings'' then is_vectors v
      else False)"
| "is_success_response _ = False"

text \<open>A vector has unit norm up to a tolerance: its norm is finite and that close to 1.\<close>

definition unit_within :: "real \<Rightarrow> fl list \<Rightarrow> bool" where
  "unit_within tol v = (case l2_norm v of Fin n \<Rightarrow> \<bar>n - 1\<bar> \<le> tol | _ \<Rightarrow> False)"

text \<open>The real numbers of a vector of finite values.\<close>

fun fin_value :: "fl \<Rightarrow> real option" where
  "fin_value (Fin a) = Some a"
| "fin_value _ = None"

fun is_fin :: "fl \<Rightarrow> bool" where
  "is_fin (Fin a) = True"
| "is_fin _ = False"

section \<open>Example collaborators\<close>

text \<open>
  A tokenizer with one token per byte, and five models: one whose hidden vector at a
  position is made of the token there, one with the same hidden vector everywhere, one
  whose hidden vectors depend on the padded length of the batch, one with a large hidden
  value, and one that returns zeros.
\<close>

definition byte_enc :: "nat \<Rightarrow> string \<Rightarrow> int list" where
  "byte_enc max_length t = take max_length (map (\<lambda>c. of_char c) t)"

definition reject :: tok where
  "reject x max_length = Inl (raise ValueError ''text input must be of type str'')"

definition byte_tokenizer :: tok where
  "byte_tokenizer = hf_tokenizer byte_enc 0 reject"

definition lookup_model :: mdl where
  "lookup_model e =
     Inr \<lparr>dim0 = irows (input_ids e), dim1 = icols (input_ids e), dim2 = 2,
          elem3 = (\<lambda>b s d. Fin (if d = 0 then of_int (ielem (input_ids e) b s) else 1))\<rparr>"

definition constant_model :: mdl where
  "constant_model e =
     Inr \<lparr>dim0 = irows (input_ids e), dim1 = icols (input_ids e), dim2 = 2,
          elem3 = (\<lambda>b s d. Fin (if d = 0 then 3 else 4))\<rparr>"

definition length_model :: mdl where
  "length_model e =
     Inr \<lparr>dim0 = irows (input_ids e), dim1 = icols (input_ids e), dim2 = 2,
          elem3 = (\<lambda>b s d. Fin (if d = 0 then 3 else 4 * (real (icols (input_ids e)) - 1)))\<rparr>"

definition huge_model :: mdl where
  "huge_model e =
     Inr \<lparr>dim0 = irows (input_ids e), dim1 = icols (input_ids e), dim2 = 2,
          elem3 = (\<lambda>b s d. Fin (if d = 0 then 2 ^ 70 else 0))\<rparr>"

definition zero_model :: mdl where
  "zero_model e =
     Inr \<lparr>dim0 = irows (input_ids e), dim1 = icols (input_ids e), dim2 = 2,
          elem3 = (\<lambda>b s d. Fin 0)\<rparr>"

text \<open>The exception of a read that meets the byte \<^verbatim>\<open>0xff\<close> in UTF-8 input.\<close>

definition undecodable :: exn where
  "undecodable =
     raise UnicodeDecodeError
       ([CHR 0x27] @ ''utf-8'' @ [CHR 0x27] @ '' codec can'' @ [CHR 0x27]
        @ ''t decode byte 0xff in position 0: invalid start byte'')"

text \<open>A decoder that knows three lines, and an outside world built from it.\<close>

definition demo_loads :: "string \<Rightarrow> exn + pyval" where
  \<open>demo_loads line =
     (if line = ''{"command": "initialize"}'' then
        Inr (PDict [(''command'', PStr ''initialize'')])
      else if line = ''{"text": "a"}'' then
        Inr (PDict [(''text'', PStr ''a'')])
      else if line = ''[1]'' then
        Inr (PList [PInt 1])
      else Inl (raise JSONDecodeError ''Expecting value: line 1 column 1 (char 0)''))\<close>

definition demo_extern :: "mdl \<Rightarrow> extern" where
  "demo_extern m =
     \<lparr>tokenizer_from_pretrained = (\<lambda>name. Inr byte_tokenizer),
      model_from_pretrained = (\<lambda>name. Inr m),
      json_loads = demo_loads,
      py_repr = (\<lambda>v. ''?'')\<rparr>"

definition demo_state :: "mdl \<Rightarrow> state" where
  "demo_state m = \<lparr>tokenizer = Some byte_tokenizer, model = Some m, events = []\<rparr>"

text \<open>
  Masked mean pooling in the words of the specification: over the sequence axis, the sum of
  the hidden vectors with those at mask 0 replaced by zero, divided by the number of
  positions at mask 1.
\<close>

definition masked_mean :: "tensor3 \<Rightarrow> itensor2 \<Rightarrow> nat \<Rightarrow> nat \<Rightarrow> fl" where
  "masked_mean h m b d =
     fl_div
       (fl_sum (map (\<lambda>s. if ielem m b s = 0 then Fin 0 else elem3 h b s d) [0..<dim1 h]))
       (Fin (real (length (filter (\<lambda>s. ielem m b s = 1) [0..<dim1 h]))))"

definition mask_bits :: "itensor2 \<Rightarrow> bool" where
  "mask_bits m \<longleftrightarrow>
     list_all (\<lambda>b. list_all (\<lambda>s. ielem m b s = 0 \<or> ielem m b s = 1) [0..<icols m])
       [0..<irows m]"

text \<open>
  The three steps that \<open>generate_embedding\<close> and \<open>generate_embeddings\<close> share: tokenize,
  run the model, pool. The result is the tensor that \<open>normalize\<close> is applied to.
\<close>

definition pooled_of :: "state \<Rightarrow> pyval \<Rightarrow> exn + tensor2" where
  "pooled_of s x =
     (case call_tokenizer s x 512 of
        Inl e \<Rightarrow> Inl e
      | Inr encoded_input \<Rightarrow>
          (case call_model s encoded_input of
             Inl e \<Rightarrow> Inl e
           | Inr h \<Rightarrow> average_pool h (attention_mask encoded_input)))"

text \<open>
  What a theorem asks of a model: the hidden states have the batch and sequence sizes of
  the encoded input; and row \<open>i\<close> of a batch has, at the positions of the tokens of that row
  encoded alone, the hidden vectors of the row encoded alone.
\<close>

definition shaped_like :: "tensor3 \<Rightarrow> encoded \<Rightarrow> bool" where
  "shaped_like h e \<longleftrightarrow>
     dim0 h = irows (attention_mask e) \<and> dim1 h = icols (attention_mask e)"

definition same_on_tokens :: "tensor3 \<Rightarrow> nat \<Rightarrow> tensor3 \<Rightarrow> bool" where
  "same_on_tokens hb i h1 \<longleftrightarrow>
     dim2 h1 = dim2 hb
     \<and> list_all (\<lambda>s. list_all (\<lambda>d. elem3 hb i s d = elem3 h1 0 s d) [0..<dim2 hb])
          [0..<dim1 h1]"

text \<open>One row of three hidden vectors of size 1, the last one padding.\<close>

definition demo_hidden :: tensor3 where
  "demo_hidden =
     \<lparr>dim0 = 1, dim1 = 3, dim2 = 1,
      elem3 = (\<lambda>b s d. Fin (if s = 0 then 2 else if s = 1 then 4 else 100))\<rparr>"

definition demo_mask :: itensor2 where
  "demo_mask = \<lparr>irows = 1, icols = 3, ielem = (\<lambda>b s. if s < 2 then 1 else 0)\<rparr>"

section \<open>Lemmas on the state and the dispatcher\<close>

lemmas pipeline_defs =
  generate_embedding_def generate_embeddings_def initialize_model_def
  format_text_for_embedding_def call_tokenizer_def call_model_def
  byte_tokenizer_def hf_tokenizer_def pad_batch_def byte_enc_def
  average_pool_def masked_fill_def bc_ok_def bc_dim_def bc_idx_def sum_dim1_def isum_dim1_def
  normalize_def row_tolist_def tolist_def l2_norm_def fl_sum_def Let_def eps_def
  overflow_def max_float_def

lemmas demo_defs = demo_extern_def demo_state_def demo_loads_def module_state_def MODEL_NAME_def

lemma sqrt25: "sqrt 25 = 5"
  using real_sqrt_abs2[of 5] by simp

lemma ready_initialize:
  "tokenizer s \<noteq> None \<Longrightarrow> model s \<noteq> None \<Longrightarrow> initialize_model ex s = (Inr (), s)"
  by (auto simp add: initialize_model_def)


lemma initialize_model_again:
  "handles_ok s \<Longrightarrow> fst (initialize_model ex (snd (initialize_model ex s))) = fst (initialize_model ex s)
   \<and> tokenizer (snd (initialize_model ex (snd (initialize_model ex s))))
       = tokenizer (snd (initialize_model ex s))
   \<and> model (snd (initialize_model ex (snd (initialize_model ex s))))
       = model (snd (initialize_model ex s))"
  by (cases "tokenizer_from_pretrained ex MODEL_NAME"; cases "model_from_pretrained ex MODEL_NAME")
     (auto simp add: initialize_model_def emit_def Let_def handles_ok_def)

lemma initialize_model_handles:
  "tokenizer s' = tokenizer s \<Longrightarrow> model s' = model s \<Longrightarrow>
   fst (initialize_model ex s') = fst (initialize_model ex s)
   \<and> tokenizer (snd (initialize_model ex s')) = tokenizer (snd (initialize_model ex s))
   \<and> model (snd (initialize_model ex s')) = model (snd (initialize_model ex s))"
  by (cases "tokenizer_from_pretrained ex MODEL_NAME"; cases "model_from_pretrained ex MODEL_NAME")
     (simp_all add: initialize_model_def emit_def Let_def)

lemma generate_embedding_snd:
  "snd (generate_embedding ex s text q) = snd (initialize_model ex s)"
  by (simp add: generate_embedding_def Let_def split: prod.splits sum.splits)

lemma generate_embeddings_snd:
  "snd (generate_embeddings ex s texts q) = snd (initialize_model ex s)"
  by (simp add: generate_embeddings_def Let_def split: prod.splits sum.splits)

lemma stdout_of_append: "stdout_of (xs @ ys) = stdout_of xs @ stdout_of ys"
  by (induction xs rule: stdout_of.induct) simp_all

lemma responses_initialize: "responses (snd (initialize_model ex s)) = responses s"
  by (simp add: initialize_model_def responses_def emit_def Let_def stdout_of_append
        split: sum.splits)

text \<open>The branches of the dispatcher, one lemma each.\<close>

lemma pc_no_get:
  "py_get cj ''command'' PNone = Inl e \<Longrightarrow>
   process_command ex s cj = (error_response (exn_msg e), s)"
  by (simp add: process_command_def process_command_body_def)

lemma pc_initialize:
  "py_get cj ''command'' PNone = Inr (PStr ''initialize'') \<Longrightarrow>
   process_command ex s cj =
     (case initialize_model ex s of
        (Inl e, s1) \<Rightarrow> (error_response (exn_msg e), s1)
      | (Inr u, s1) \<Rightarrow> (status_initialized, s1))"
  by (simp add: process_command_def process_command_body_def split: prod.splits sum.splits)

lemma pc_generate_embedding:
  "py_get cj ''command'' PNone = Inr (PStr ''generate_embedding'') \<Longrightarrow>
   process_command ex s cj =
     (case py_get cj ''text'' PNone of
        Inl e \<Rightarrow> (error_response (exn_msg e), s)
      | Inr text \<Rightarrow>
          (case py_get cj ''is_query'' (PBool False) of
             Inl e \<Rightarrow> (error_response (exn_msg e), s)
           | Inr is_query \<Rightarrow>
               if \<not> py_truthy text then (error_response ''No text provided'', s)
               else
                 (case generate_embedding ex s text is_query of
                    (Inl e, s1) \<Rightarrow> (error_response (exn_msg e), s1)
                  | (Inr embedding, s1) \<Rightarrow> (embedding_response embedding, s1))))"
  by (simp add: process_command_def process_command_body_def split: prod.splits sum.splits)

lemma pc_generate_embeddings:
  "py_get cj ''command'' PNone = Inr (PStr ''generate_embeddings'') \<Longrightarrow>
   process_command ex s cj =
     (case py_get cj ''texts'' PNone of
        Inl e \<Rightarrow> (error_response (exn_msg e), s)
      | Inr texts \<Rightarrow>
          (case py_get cj ''is_query'' (PBool False) of
             Inl e \<Rightarrow> (error_response (exn_msg e), s)
           | Inr is_query \<Rightarrow>
               if \<not> py_truthy texts \<or> \<not> isinstance_list texts then
                 (error_response ''No texts provided or invalid format'', s)
               else
                 (case generate_embeddings ex s texts is_query of
                    (Inl e, s1) \<Rightarrow> (error_response (exn_msg e), s1)
                  | (Inr embeddings, s1) \<Rightarrow> (embeddings_response embeddings, s1))))"
  by (simp add: process_command_def process_command_body_def split: prod.splits sum.splits)

lemma pc_unknown:
  "py_get cj ''command'' PNone = Inr c \<Longrightarrow> c \<noteq> PStr ''initialize'' \<Longrightarrow>
   c \<noteq> PStr ''generate_embedding'' \<Longrightarrow> c \<noteq> PStr ''generate_embeddings'' \<Longrightarrow>
   process_command ex s cj = (error_response (''Unknown command: '' @ py_str ex c), s)"
  by (simp add: process_command_def process_command_body_def)

lemma pc_cases:
  obtains (no_get) e where "py_get cj ''command'' PNone = Inl e"
  | (initialize) "py_get cj ''command'' PNone = Inr (PStr ''initialize'')"
  | (single) "py_get cj ''command'' PNone = Inr (PStr ''generate_embedding'')"
  | (batch) "py_get cj ''command'' PNone = Inr (PStr ''generate_embeddings'')"
  | (unknown) c where "py_get cj ''command'' PNone = Inr c" "c \<noteq> PStr ''initialize''"
      "c \<noteq> PStr ''generate_embedding''" "c \<noteq> PStr ''generate_embeddings''"
  by (cases "py_get cj ''command'' PNone") blast+


lemma process_command_snd:
  "snd (process_command ex s cj) = s \<or> snd (process_command ex s cj) = snd (initialize_model ex s)"
proof (cases rule: pc_cases[of cj])
  case (no_get e)
  then show ?thesis by (simp add: pc_no_get)
next
  case initialize
  then show ?thesis by (simp add: pc_initialize split: prod.splits sum.splits)
next
  case single
  have "snd (case generate_embedding ex s t q of
               (Inl e, s1) \<Rightarrow> (error_response (exn_msg e), s1)
             | (Inr embedding, s1) \<Rightarrow> (embedding_response embedding, s1))
        = snd (initialize_model ex s)" for t q
    using generate_embedding_snd[of ex s t q] by (auto split: prod.splits sum.splits)
  with single show ?thesis by (simp add: pc_generate_embedding split: sum.splits)
next
  case batch
  have "snd (case generate_embeddings ex s t q of
               (Inl e, s1) \<Rightarrow> (error_response (exn_msg e), s1)
             | (Inr embeddings, s1) \<Rightarrow> (embeddings_response embeddings, s1))
        = snd (initialize_model ex s)" for t q
    using generate_embeddings_snd[of ex s t q] by (auto split: prod.splits sum.splits)
  with batch show ?thesis by (simp add: pc_generate_embeddings split: sum.splits)
next
  case (unknown c)
  then show ?thesis by (simp add: pc_unknown)
qed

lemma responses_process_command: "responses (snd (process_command ex s cj)) = responses s"
  using process_command_snd[of ex s cj] by (auto simp add: responses_initialize)

lemma handles_ok_module_state: "handles_ok module_state"
  by (simp add: handles_ok_def module_state_def)

lemma handles_ok_emit: "handles_ok (emit e s) = handles_ok s"
  by (simp add: handles_ok_def emit_def)

lemma handles_ok_initialize: "handles_ok s \<Longrightarrow> handles_ok (snd (initialize_model ex s))"
  by (cases "tokenizer_from_pretrained ex MODEL_NAME"; cases "model_from_pretrained ex MODEL_NAME")
     (auto simp add: initialize_model_def emit_def Let_def handles_ok_def)

lemma handles_ok_process_command:
  "handles_ok s \<Longrightarrow> handles_ok (snd (process_command ex s cj))"
  using process_command_snd[of ex s cj] handles_ok_initialize[of s ex] by auto

lemma handles_ok_handle_line: "handles_ok s \<Longrightarrow> handles_ok (handle_line ex s line)"
proof (cases "json_loads ex line")
  case (Inl e)
  assume "handles_ok s"
  then show ?thesis using Inl by (simp add: handle_line_def Let_def handles_ok_emit)
next
  case (Inr cj)
  assume "handles_ok s"
  then have "handles_ok (snd (process_command ex (emit (StdinLine line) s) cj))"
    by (simp add: handles_ok_process_command handles_ok_emit)
  then show ?thesis using Inr
    by (auto simp add: handle_line_def Let_def handles_ok_emit split: prod.splits)
qed

lemma error_response_shape: "is_error_response (error_response msg)"
  by (simp add: error_response_def)

lemma embedding_response_shape: "is_success_response (embedding_response v)"
  by (simp add: embedding_response_def list_all_iff)

lemma embeddings_response_shape: "is_success_response (embeddings_response vs)"
  by (simp add: embeddings_response_def list_all_iff)

lemma process_command_shape:
  "is_error_response (fst (process_command ex s cj))
   \<or> is_success_response (fst (process_command ex s cj))"
proof (cases rule: pc_cases[of cj])
  case (no_get e)
  then show ?thesis by (simp add: pc_no_get error_response_shape)
next
  case initialize
  then show ?thesis
    by (simp add: pc_initialize error_response_shape status_initialized_def
          split: prod.splits sum.splits)
next
  case single
  then show ?thesis
    by (simp add: pc_generate_embedding error_response_shape embedding_response_shape
          split: prod.splits sum.splits)
next
  case batch
  then show ?thesis
    by (simp add: pc_generate_embeddings error_response_shape embeddings_response_shape
          split: prod.splits sum.splits)
next
  case (unknown c)
  then show ?thesis by (simp add: pc_unknown error_response_shape)
qed

lemma responses_handle_line:
  "\<exists>r. responses (handle_line ex s line) = responses s @ [r]
       \<and> (is_error_response r \<or> is_success_response r)"
proof (cases "json_loads ex line")
  case (Inl e)
  then show ?thesis
    by (simp add: handle_line_def responses_def emit_def stdout_of_append error_response_shape
          Let_def)
next
  case (Inr cj)
  let ?s0 = "emit (StdinLine line) s"
  obtain r s1 where pc: "process_command ex ?s0 cj = (r, s1)"
    by (cases "process_command ex ?s0 cj")
  have "responses s1 = responses ?s0"
    using responses_process_command[of ex ?s0 cj] pc by simp
  moreover have "responses ?s0 = responses s"
    by (simp add: responses_def emit_def stdout_of_append)
  moreover have "is_error_response r \<or> is_success_response r"
    using process_command_shape[of ex ?s0 cj] pc by simp
  ultimately show ?thesis using Inr pc
    by (simp add: handle_line_def responses_def emit_def stdout_of_append)
qed

lemma responses_main_loop:
  "length (responses (snd (main_loop ex s reads)))
     = length (responses s) + length (lines_read reads)
   \<and> (list_all (\<lambda>r. is_error_response r \<or> is_success_response r) (responses s) \<longrightarrow>
        list_all (\<lambda>r. is_error_response r \<or> is_success_response r)
          (responses (snd (main_loop ex s reads))))"
proof (induction ex s reads rule: main_loop.induct)
  case (1 ex s)
  show ?case by simp
next
  case (2 ex s e rest)
  show ?case by simp
next
  case (3 ex s line rest)
  obtain r where r: "responses (handle_line ex s line) = responses s @ [r]"
      "is_error_response r \<or> is_success_response r"
    using responses_handle_line[of ex s line] by blast
  show ?case using 3 r by simp
qed

lemma generate_embedding_cong:
  assumes "fst (initialize_model ex s') = fst (initialize_model ex s)"
      and "tokenizer (snd (initialize_model ex s')) = tokenizer (snd (initialize_model ex s))"
      and "model (snd (initialize_model ex s')) = model (snd (initialize_model ex s))"
  shows "fst (generate_embedding ex s' text q) = fst (generate_embedding ex s text q)"
proof -
  obtain r s1 where a: "initialize_model ex s = (r, s1)" by (cases "initialize_model ex s")
  obtain r' s1' where b: "initialize_model ex s' = (r', s1')" by (cases "initialize_model ex s'")
  from assms a b have "r' = r" "tokenizer s1' = tokenizer s1" "model s1' = model s1" by simp_all
  then show ?thesis
    by (cases r)
       (simp_all add: generate_embedding_def a b call_tokenizer_def call_model_def Let_def
          split: option.splits sum.splits)
qed






section \<open>Lemmas on pooling\<close>

lemma bc_idx_less: "i < n \<Longrightarrow> bc_idx n i = i"
  by (auto simp add: bc_idx_def)

lemma bc_idx_upt: "i \<in> set [0..<n] \<Longrightarrow> bc_idx n i = i"
  by (simp add: bc_idx_less)

lemma bc_dim_same: "bc_dim n n = n"
  by (simp add: bc_dim_def)

lemma sum_bits_count:
  "\<forall>s\<in>set xs. f s = 0 \<or> f s = (1::int) \<Longrightarrow>
   sum_list (map f xs) = int (length (filter (\<lambda>s. f s = 1) xs))"
  by (induction xs) auto

lemma average_pool_same_shape:
  assumes "dim0 h = irows m" and "dim1 h = icols m"
  shows "\<exists>p. average_pool h m = Inr p \<and> rows p = dim0 h \<and> cols p = dim2 h
           \<and> (\<forall>b<dim0 h. \<forall>d. elem2 p b d =
                 fl_div
                   (fl_sum (map (\<lambda>s. if ielem m b s = 0 then Fin 0 else elem3 h b s d)
                              [0..<dim1 h]))
                   (Fin (of_int (isum_dim1 m b))))"
proof -
  have row: "map (\<lambda>s. if ielem m b (bc_idx (icols m) s) = 0 then Fin 0
                   else elem3 h b (bc_idx (icols m) s) d) [0..<icols m]
        = map (\<lambda>s. if ielem m b s = 0 then Fin 0 else elem3 h b s d) [0..<icols m]" for b d
    by (intro map_cong[OF refl]) (simp add: bc_idx_less)
  show ?thesis
    using assms
    by (simp add: average_pool_def masked_fill_def sum_dim1_def bc_ok_def bc_dim_same
          bc_idx_less row Let_def cong: if_cong)
qed

section \<open>Lemmas on normalisation and on padded batches\<close>

lemma max_float_ge_1: "1 \<le> max_float"
  by (simp add: max_float_def)

lemma overflow_Fin: "overflow x = Fin a \<Longrightarrow> a = x"
  by (simp add: overflow_def split: if_splits)

lemma overflow_small: "\<bar>x\<bar> \<le> 1 \<Longrightarrow> overflow x = Fin x"
  using max_float_ge_1 by (auto simp add: overflow_def)

lemma overflow_0: "overflow 0 = Fin 0"
  by (simp add: overflow_small)

lemma fl_add_Fin: "fl_add x y = Fin a \<Longrightarrow> \<exists>b c. x = Fin b \<and> y = Fin c \<and> a = b + c"
  by (cases x; cases y) (auto dest: overflow_Fin)

lemma fl_sq_Fin: "fl_sq x = Fin q \<Longrightarrow> \<exists>r. x = Fin r \<and> q = r * r"
  by (cases x) (auto dest: overflow_Fin)

lemma fl_sum_finite: "fl_sum xs = Fin a \<Longrightarrow> \<exists>rs. xs = map Fin rs \<and> a = sum_list rs"
proof (induction xs arbitrary: a)
  case Nil
  then show ?case by (simp add: fl_sum_def)
next
  case (Cons x xs)
  from Cons.prems obtain b c where bc: "x = Fin b" "fl_sum xs = Fin c" "a = b + c"
    using fl_add_Fin[of x "fl_sum xs" a] by (auto simp add: fl_sum_def)
  from Cons.IH[OF bc(2)] obtain rs where "xs = map Fin rs" "c = sum_list rs" by blast
  then have "x # xs = map Fin (b # rs) \<and> a = sum_list (b # rs)" using bc by simp
  then show ?case by (rule exI)
qed

lemma fl_sq_finite:
  "map fl_sq v = map Fin qs \<Longrightarrow> \<exists>rs. v = map Fin rs \<and> qs = map (\<lambda>r. r * r) rs"
proof (induction v arbitrary: qs)
  case Nil
  then show ?case by simp
next
  case (Cons x v)
  then obtain q qs' where q: "qs = q # qs'" "fl_sq x = Fin q" "map fl_sq v = map Fin qs'"
    by (cases qs) auto
  from Cons.IH[OF q(3)] obtain rs where rs: "v = map Fin rs" "qs' = map (\<lambda>r. r * r) rs"
    by blast
  obtain r where "x = Fin r" "q = r * r" using fl_sq_Fin[OF q(2)] by blast
  then have "x # v = map Fin (r # rs) \<and> qs = map (\<lambda>r. r * r) (r # rs)"
    using rs q(1) by simp
  then show ?case by (rule exI)
qed

lemma l2_norm_finite:
  assumes "l2_norm v = Fin n"
  shows "\<exists>rs. v = map Fin rs \<and> n = sqrt (sum_list (map (\<lambda>r. r * r) rs))"
proof -
  obtain a where a: "fl_sum (map fl_sq v) = Fin a" "n = sqrt a"
    using assms by (cases "fl_sum (map fl_sq v)") (simp_all add: l2_norm_def split: if_splits)
  then obtain qs where qs: "map fl_sq v = map Fin qs" "a = sum_list qs"
    using fl_sum_finite by blast
  then obtain rs where "v = map Fin rs" "qs = map (\<lambda>r. r * r) rs"
    using fl_sq_finite by blast
  then show ?thesis using a(2) qs(2) by blast
qed

lemma fl_sum_small:
  "\<forall>q\<in>set qs. 0 \<le> q \<Longrightarrow> sum_list qs \<le> 1 \<Longrightarrow> fl_sum (map Fin qs) = Fin (sum_list qs)"
proof (induction qs)
  case Nil
  then show ?case by (simp add: fl_sum_def)
next
  case (Cons q qs)
  have nn: "0 \<le> sum_list qs" using Cons.prems(1) by (simp add: sum_list_nonneg)
  have "0 \<le> q" using Cons.prems(1) by simp
  then have "fl_sum (map Fin qs) = Fin (sum_list qs)"
    using Cons by simp
  moreover have "\<bar>q + sum_list qs\<bar> \<le> 1" using nn \<open>0 \<le> q\<close> Cons.prems(2) by simp
  ultimately show ?case by (simp add: fl_sum_def overflow_small)
qed

lemma sum_squares_nonneg: "0 \<le> sum_list (map (\<lambda>r. r * r) rs)" for rs :: "real list"
  by (induction rs) simp_all

lemma square_le_sum:
  "r \<in> set rs \<Longrightarrow> r * r \<le> sum_list (map (\<lambda>r. r * r) rs)" for r :: real
proof (induction rs)
  case Nil
  then show ?case by simp
next
  case (Cons x rs)
  have "0 \<le> sum_list (map (\<lambda>r. r * r) rs)" by (rule sum_squares_nonneg)
  moreover have "0 \<le> x * x" by simp
  ultimately show ?case using Cons by (auto intro: add_increasing)
qed

lemma l2_norm_small:
  assumes "sum_list (map (\<lambda>r. r * r) rs) \<le> 1"
  shows "l2_norm (map Fin rs) = Fin (sqrt (sum_list (map (\<lambda>r. r * r) rs)))"
proof -
  have "map fl_sq (map Fin rs) = map Fin (map (\<lambda>r. r * r) rs)"
  proof -
    have "fl_sq (Fin r) = Fin (r * r)" if "r \<in> set rs" for r
    proof -
      have "r * r \<le> 1" using square_le_sum[OF that] assms by simp
      then show ?thesis by (simp add: overflow_small)
    qed
    then show ?thesis by simp
  qed
  moreover have "fl_sum (map Fin (map (\<lambda>r. r * r) rs)) = Fin (sum_list (map (\<lambda>r. r * r) rs))"
    using assms by (intro fl_sum_small) auto
  moreover have "0 \<le> sum_list (map (\<lambda>r. r * r) rs)" by (rule sum_squares_nonneg)
  ultimately show ?thesis by (simp add: l2_norm_def del: map_map)
qed

lemma sum_list_scaled:
  "sum_list (map (\<lambda>r. r * r) (map (\<lambda>r. r / n) rs))
     = sum_list (map (\<lambda>r. r * r) rs) / (n * n)" for n :: real
  by (induction rs) (simp_all add: add_divide_distrib)

lemma normalized_row_unit:
  assumes "l2_norm r = Fin n" and "eps \<le> n"
  shows "l2_norm (map (\<lambda>y. fl_div y (clamp_min (l2_norm r) eps)) r) = Fin 1"
proof -
  obtain rs where rs: "r = map Fin rs" and n: "n = sqrt (sum_list (map (\<lambda>r. r * r) rs))"
    using l2_norm_finite[OF assms(1)] by blast
  let ?S = "sum_list (map (\<lambda>r. r * r) rs)"
  have pos: "0 < n" using assms(2) by (simp add: eps_def)
  have S: "n * n = ?S"
    using n pos
    by (metis abs_of_pos real_sqrt_mult_self real_sqrt_gt_0_iff less_eq_real_def
        real_sqrt_ge_0_iff)
  have small: "\<bar>x / n\<bar> \<le> 1" if "x \<in> set rs" for x
  proof -
    have "x * x \<le> n * n" using square_le_sum[OF that] S by simp
    then have "x\<^sup>2 \<le> n\<^sup>2" by (simp add: power2_eq_square)
    then have "\<bar>x\<bar> \<le> \<bar>n\<bar>" using abs_le_square_iff by blast
    then have "\<bar>x\<bar> \<le> n" using pos by simp
    then show ?thesis using pos by simp
  qed
  have "fl_div (Fin x) (clamp_min (l2_norm r) eps) = Fin (x / n)" if "x \<in> set rs" for x
    using assms pos small[OF that] by (simp add: max_def overflow_small)
  then have "map (\<lambda>y. fl_div y (clamp_min (l2_norm r) eps)) r = map Fin (map (\<lambda>r. r / n) rs)"
    by (simp add: rs)
  moreover have one: "sum_list (map (\<lambda>r. r * r) (map (\<lambda>r. r / n) rs)) = 1"
  proof -
    have "sum_list (map (\<lambda>r. r * r) (map (\<lambda>r. r / n) rs)) = (n * n) / (n * n)"
      by (simp only: sum_list_scaled S)
    then show ?thesis using pos by simp
  qed
  moreover have "l2_norm (map Fin (map (\<lambda>r. r / n) rs))
      = Fin (sqrt (sum_list (map (\<lambda>r. r * r) (map (\<lambda>r. r / n) rs))))"
    by (rule l2_norm_small) (simp only: one order_refl)
  ultimately show ?thesis by (simp only: real_sqrt_one)
qed

lemma row_tolist_normalize:
  "row_tolist (normalize x) b =
     map (\<lambda>y. fl_div y (clamp_min (l2_norm (row_tolist x b)) eps)) (row_tolist x b)"
  by (simp add: normalize_def row_tolist_def)


lemma generate_embedding_pooled:
  assumes "ready s"
  shows "generate_embedding ex s text q =
           (case pooled_of s (format_text_for_embedding ex text q) of
              Inl e \<Rightarrow> (Inl e, s)
            | Inr p \<Rightarrow>
                if 0 < rows p then (Inr (row_tolist (normalize p) 0), s)
                else (Inl (raise IndexError
                        ''index 0 is out of bounds for dimension 0 with size 0''), s))"
proof -
  have "initialize_model ex s = (Inr (), s)"
    using assms by (simp add: ready_def ready_initialize)
  then show ?thesis
    by (simp add: generate_embedding_def pooled_of_def normalize_def Let_def split: sum.splits)
qed

lemma generate_embeddings_pooled:
  assumes "ready s" and "py_truthy texts" and "isinstance_list texts"
  shows "generate_embeddings ex s texts q =
           (case pooled_of s (PList (map (\<lambda>text. format_text_for_embedding ex text q)
                                       (py_elements texts))) of
              Inl e \<Rightarrow> (Inl e, s)
            | Inr p \<Rightarrow> (Inr (tolist (normalize p)), s))"
proof -
  have "initialize_model ex s = (Inr (), s)"
    using assms by (simp add: ready_def ready_initialize)
  then show ?thesis using assms(2,3)
    by (simp add: generate_embeddings_def pooled_of_def Let_def split: sum.splits)
qed

lemma tolist_nth: "b < rows t \<Longrightarrow> tolist t ! b = row_tolist t b"
  by (simp add: tolist_def)

lemma rows_normalize: "rows (normalize p) = rows p"
  by (simp add: normalize_def)

lemmas pooled_defs =
  pooled_of_def call_tokenizer_def call_model_def
  byte_tokenizer_def hf_tokenizer_def pad_batch_def byte_enc_def
  average_pool_def masked_fill_def bc_ok_def bc_dim_def bc_idx_def sum_dim1_def isum_dim1_def
  row_tolist_def l2_norm_def fl_sum_def Let_def overflow_def max_float_def

lemma strings_of_PStr: "strings_of (map PStr ts) = Some ts"
  by (induction ts) simp_all

lemma length_le_foldr_max:
  "i < length rws \<Longrightarrow> length (rws ! i) \<le> foldr max (map length rws) 0"
proof (induction rws arbitrary: i)
  case Nil
  then show ?case by simp
next
  case (Cons r rws)
  show ?case
  proof (cases i)
    case 0
    then show ?thesis by simp
  next
    case (Suc j)
    then have "length (rws ! j) \<le> foldr max (map length rws) 0"
      using Cons.IH[of j] Cons.prems by simp
    then show ?thesis using Suc by (simp add: le_max_iff_disj)
  qed
qed

lemma fl_sum_append: "fl_sum (xs @ ys) = foldr fl_add xs (fl_sum ys)"
  by (simp add: fl_sum_def)

lemma fl_sum_zeros: "fl_sum (map (\<lambda>s. Fin 0) xs) = Fin 0"
  by (induction xs) (simp_all add: fl_sum_def overflow_0)

lemma fl_sum_masked_prefix:
  assumes "k \<le> n"
  shows "fl_sum (map (\<lambda>s. if s < k then f s else Fin 0) [0..<n]) = fl_sum (map f [0..<k])"
proof -
  have split: "[0..<n] = [0..<k] @ [k..<n]"
    using assms by (metis le_add_diff_inverse upt_add_eq_append zero_le)
  have a: "map (\<lambda>s. if s < k then f s else Fin 0) [0..<k] = map f [0..<k]"
    by (intro map_cong[OF refl]) simp
  have b: "map (\<lambda>s. if s < k then f s else Fin 0) [k..<n] = map (\<lambda>s. Fin 0) [k..<n]"
    by (intro map_cong[OF refl]) simp
  show ?thesis
    unfolding split map_append a b fl_sum_append fl_sum_zeros
    by (simp add: fl_sum_def)
qed

lemma sum_list_masked_prefix:
  assumes "k \<le> n"
  shows "sum_list (map (\<lambda>s. if s < k then 1 else 0) [0..<n]) = int k"
proof -
  have split: "[0..<n] = [0..<k] @ [k..<n]"
    using assms by (metis le_add_diff_inverse upt_add_eq_append zero_le)
  have a: "map (\<lambda>s. if s < k then 1 else 0) [0..<k] = map (\<lambda>s. 1::int) [0..<k]"
    by (intro map_cong[OF refl]) simp
  have b: "map (\<lambda>s. if s < k then 1 else 0) [k..<n] = map (\<lambda>s. 0::int) [k..<n]"
    by (intro map_cong[OF refl]) simp
  show ?thesis
    unfolding split map_append a b by (simp add: sum_list_triv)
qed


lemma mask_pad_batch:
  "irows (attention_mask (pad_batch pad rws)) = length rws"
  "icols (attention_mask (pad_batch pad rws)) = foldr max (map length rws) 0"
  "i < length rws \<Longrightarrow>
     ielem (attention_mask (pad_batch pad rws)) i = (\<lambda>s. if s < length (rws ! i) then 1 else 0)"
  by (simp_all add: pad_batch_def Let_def)

lemma pooled_row:
  assumes "i < length rws" and "k = length (rws ! i)"
      and "dim0 h = length rws" and "dim1 h = foldr max (map length rws) 0"
  shows "\<exists>p. average_pool h (attention_mask (pad_batch pad rws)) = Inr p
           \<and> rows p = length rws \<and> cols p = dim2 h
           \<and> (\<forall>d. elem2 p i d =
                 fl_div (fl_sum (map (\<lambda>s. elem3 h i s d) [0..<k])) (Fin (real k)))"
proof -
  let ?m = "attention_mask (pad_batch pad rws)"
  have kn: "k \<le> dim1 h" using assms length_le_foldr_max[of i rws] by simp
  obtain p where p: "average_pool h ?m = Inr p" "rows p = dim0 h" "cols p = dim2 h"
    "\<forall>b<dim0 h. \<forall>d. elem2 p b d =
       fl_div (fl_sum (map (\<lambda>s. if ielem ?m b s = 0 then Fin 0 else elem3 h b s d) [0..<dim1 h]))
         (Fin (of_int (isum_dim1 ?m b)))"
    using average_pool_same_shape[of h ?m] assms(3,4) by (auto simp add: mask_pad_batch)
  have m: "ielem ?m i = (\<lambda>s. if s < k then 1 else 0)"
    using assms(1,2) by (simp add: mask_pad_batch)
  have num: "map (\<lambda>s. if ielem ?m i s = 0 then Fin 0 else elem3 h i s d) [0..<dim1 h]
             = map (\<lambda>s. if s < k then elem3 h i s d else Fin 0) [0..<dim1 h]" for d
    by (intro map_cong[OF refl]) (simp add: m)
  have cnt: "isum_dim1 ?m i = int k"
    using kn assms(4) by (simp add: isum_dim1_def m mask_pad_batch sum_list_masked_prefix)
  have "elem2 p i d = fl_div (fl_sum (map (\<lambda>s. elem3 h i s d) [0..<k])) (Fin (real k))" for d
    using p(4) assms(1,3) by (simp add: num cnt fl_sum_masked_prefix[OF kn])
  then show ?thesis using p assms(3) by simp
qed

lemma pooled_rows_agree:
  assumes i: "i < length rws"
      and hb: "dim0 hb = length rws" "dim1 hb = foldr max (map length rws) 0"
      and h1: "dim0 h1 = 1" "dim1 h1 = length (rws ! i)"
      and same: "same_on_tokens hb i h1"
  shows "\<exists>pb p1. average_pool hb (attention_mask (pad_batch pad rws)) = Inr pb
            \<and> average_pool h1 (attention_mask (pad_batch pad [rws ! i])) = Inr p1
            \<and> rows pb = length rws \<and> rows p1 = 1
            \<and> row_tolist pb i = row_tolist p1 0"
proof -
  let ?k = "length (rws ! i)"
  obtain pb where pb: "average_pool hb (attention_mask (pad_batch pad rws)) = Inr pb"
    "rows pb = length rws" "cols pb = dim2 hb"
    "\<forall>d. elem2 pb i d = fl_div (fl_sum (map (\<lambda>s. elem3 hb i s d) [0..<?k])) (Fin (real ?k))"
    using pooled_row[OF i refl hb] by blast
  have "\<exists>p. average_pool h1 (attention_mask (pad_batch pad [rws ! i])) = Inr p
           \<and> rows p = length [rws ! i] \<and> cols p = dim2 h1
           \<and> (\<forall>d. elem2 p 0 d =
                 fl_div (fl_sum (map (\<lambda>s. elem3 h1 0 s d) [0..<?k])) (Fin (real ?k)))"
    by (rule pooled_row) (simp_all add: h1)
  then obtain p1 where p1: "average_pool h1 (attention_mask (pad_batch pad [rws ! i])) = Inr p1"
    "rows p1 = 1" "cols p1 = dim2 h1"
    "\<forall>d. elem2 p1 0 d = fl_div (fl_sum (map (\<lambda>s. elem3 h1 0 s d) [0..<?k])) (Fin (real ?k))"
    by auto
  have d2: "dim2 h1 = dim2 hb" using same by (simp add: same_on_tokens_def)
  have eq: "elem3 hb i s d = elem3 h1 0 s d" if "s < ?k" "d < dim2 hb" for s d
    using same that h1(2) by (simp add: same_on_tokens_def list_all_iff)
  have "elem2 pb i d = elem2 p1 0 d" if "d < dim2 hb" for d
  proof -
    have m: "map (\<lambda>s. elem3 hb i s d) [0..<?k] = map (\<lambda>s. elem3 h1 0 s d) [0..<?k]"
      using that by (intro map_cong[OF refl]) (simp add: eq)
    show ?thesis by (simp only: pb(4) p1(4) m)
  qed
  then have "row_tolist pb i = row_tolist p1 0"
    by (simp add: row_tolist_def pb(3) p1(3) d2)
  then show ?thesis using pb p1 by blast
qed

lemma foldr_max_single: "foldr max (map length [r]) 0 = length r"
  by simp

lemma pooled_of_handles:
  assumes "tokenizer s = Some t" and "model s = Some m"
      and "t x 512 = Inr e" and "m e = Inr h"
  shows "pooled_of s x = average_pool h (attention_mask e)"
  using assms by (simp add: pooled_of_def call_tokenizer_def call_model_def)

section \<open>The claims\<close>

subsection \<open>C1: masked mean pooling\<close>

text \<open>
  C1. For a hidden-state tensor and an attention mask of the same batch and sequence
  sizes, the mask holding bits, \<open>average_pool\<close> returns a tensor of shape (batch, hidden)
  whose entry at row \<open>b\<close> and component \<open>d\<close> is the sum over the sequence axis of the hidden
  values with those at mask 0 replaced by zero, divided by the number of positions of the
  row at mask 1.
\<close>

theorem average_pool_masked_mean:
  assumes "dim0 h = irows m" and "dim1 h = icols m" and "mask_bits m"
  shows "\<exists>p. average_pool h m = Inr p \<and> rows p = dim0 h \<and> cols p = dim2 h
           \<and> (\<forall>b<dim0 h. \<forall>d<dim2 h. elem2 p b d = masked_mean h m b d)"
proof -
  obtain p where p: "average_pool h m = Inr p" "rows p = dim0 h" "cols p = dim2 h"
    "\<forall>b<dim0 h. \<forall>d. elem2 p b d =
       fl_div (fl_sum (map (\<lambda>s. if ielem m b s = 0 then Fin 0 else elem3 h b s d) [0..<dim1 h]))
         (Fin (of_int (isum_dim1 m b)))"
    using average_pool_same_shape[OF assms(1,2)] by blast
  have "isum_dim1 m b = int (length (filter (\<lambda>s. ielem m b s = 1) [0..<dim1 h]))"
    if "b < dim0 h" for b
    unfolding isum_dim1_def assms(2)
    using assms(3) that assms(1)
    by (intro sum_bits_count) (simp add: mask_bits_def list_all_iff)
  with p show ?thesis by (simp add: masked_mean_def)
qed

theorem average_pool_masked_mean_witness:
  "dim0 demo_hidden = irows demo_mask \<and> dim1 demo_hidden = icols demo_mask
   \<and> mask_bits demo_mask
   \<and> (\<exists>p. average_pool demo_hidden demo_mask = Inr p \<and> elem2 p 0 0 = Fin 3)
   \<and> masked_mean demo_hidden demo_mask 0 0 = Fin 3"
proof -
  have h: "dim0 demo_hidden = irows demo_mask" "dim1 demo_hidden = icols demo_mask"
    "mask_bits demo_mask"
    by (simp_all add: demo_hidden_def demo_mask_def mask_bits_def upt_rec)
  have v: "masked_mean demo_hidden demo_mask 0 0 = Fin 3"
    by (simp add: masked_mean_def demo_hidden_def demo_mask_def fl_sum_def upt_rec
          overflow_def max_float_def)
  from average_pool_masked_mean[OF h] obtain p where
    "average_pool demo_hidden demo_mask = Inr p"
    "\<forall>b<dim0 demo_hidden. \<forall>d<dim2 demo_hidden. elem2 p b d = masked_mean demo_hidden demo_mask b d"
    by blast
  moreover have "0 < dim0 demo_hidden" "0 < dim2 demo_hidden" by (simp_all add: demo_hidden_def)
  ultimately have "\<exists>p. average_pool demo_hidden demo_mask = Inr p \<and> elem2 p 0 0 = Fin 3"
    using v by auto
  then show ?thesis using h v by simp
qed

subsection \<open>C2: a batch and its texts one by one\<close>

text \<open>
  C2 is stated for every fixed tokenizer and model. The code passes the padded batch to
  the model and masks only the pooling: with a model whose hidden vectors depend on the
  padded length, the text \<^verbatim>\<open>a\<close> has another embedding beside \<^verbatim>\<open>bc\<close> than alone.
\<close>

theorem batch_single_counterexample:
  "generate_embeddings (demo_extern length_model) (demo_state length_model)
       (PList [PStr ''a'', PStr ''bc'']) (PBool False)
     = (Inr [[Fin (3/5), Fin (4/5)], [Fin (3/5), Fin (4/5)]], demo_state length_model)
   \<and> generate_embedding (demo_extern length_model) (demo_state length_model)
       (PStr ''a'') (PBool False)
     = (Inr [Fin 1, Fin 0], demo_state length_model)"
  by (simp add: pipeline_defs demo_state_def length_model_def sqrt25 upt_rec)

text \<open>
  C2, amended. With a tokenizer that pads the rows of a batch on the right and a model
  that, for row \<open>i\<close> of the batch, returns at the positions of the tokens of that row the
  hidden vectors it returns for the row encoded alone, the \<open>i\<close>-th vector of
  \<open>generate_embeddings\<close> on a list of strings is the vector of \<open>generate_embedding\<close> on the
  \<open>i\<close>-th string: the hidden vectors at the padding do not reach the result.
\<close>

theorem batch_agrees_with_single:
  assumes tk: "tokenizer s = Some (hf_tokenizer enc pad other)" and md: "model s = Some m"
      and i: "i < length texts"
      and eb: "hf_tokenizer enc pad other
                 (PList (map (\<lambda>t. format_text_for_embedding ex (PStr t) (PBool q)) texts)) 512
               = Inr eb"
      and e1: "hf_tokenizer enc pad other
                 (format_text_for_embedding ex (PStr (texts ! i)) (PBool q)) 512
               = Inr e1"
      and hb: "m eb = Inr hb" "shaped_like hb eb"
      and h1: "m e1 = Inr h1" "shaped_like h1 e1"
      and same: "same_on_tokens hb i h1"
  shows "\<exists>vs v. generate_embeddings ex s (PList (map PStr texts)) (PBool q) = (Inr vs, s)
           \<and> generate_embedding ex s (PStr (texts ! i)) (PBool q) = (Inr v, s)
           \<and> length vs = length texts \<and> vs ! i = v"
proof -
  define f where
    "f t = (if q then ''Instruct: '' @ task_description @ [CHR 0x0A] @ ''Query: '' @ t else t)"
    for t
  have fmt: "format_text_for_embedding ex (PStr t) (PBool q) = PStr (f t)" for t
    by (simp add: format_text_for_embedding_def f_def)
  define rws where "rws = map (enc 512) (map f texts)"
  have ne: "texts \<noteq> []" using i by auto
  have len: "length rws = length texts" by (simp add: rws_def)
  have row: "rws ! i = enc 512 (f (texts ! i))" using i by (simp add: rws_def)
  have "map (\<lambda>t. format_text_for_embedding ex (PStr t) (PBool q)) texts = map PStr (map f texts)"
    by (simp add: fmt)
  then have eb': "eb = pad_batch pad rws"
    using eb ne by (simp add: hf_tokenizer_def strings_of_PStr rws_def comp_def del: map_map)
  have e1': "e1 = pad_batch pad [rws ! i]"
    using e1 by (simp add: hf_tokenizer_def fmt row)
  have sb: "dim0 hb = length rws" "dim1 hb = foldr max (map length rws) 0"
    using hb(2) by (simp_all add: shaped_like_def eb' mask_pad_batch)
  have s1: "dim0 h1 = 1" "dim1 h1 = length (rws ! i)"
    using h1(2) by (simp_all add: shaped_like_def e1' mask_pad_batch)
  have i': "i < length rws" using i len by simp
  obtain pb p1 where p: "average_pool hb (attention_mask (pad_batch pad rws)) = Inr pb"
    "average_pool h1 (attention_mask (pad_batch pad [rws ! i])) = Inr p1"
    "rows pb = length rws" "rows p1 = 1" "row_tolist pb i = row_tolist p1 0"
    using pooled_rows_agree[OF i' sb s1 same, of pad] by blast
  have rdy: "ready s" using tk md by (simp add: ready_def)
  have elts: "map (\<lambda>text. format_text_for_embedding ex text (PBool q))
                (py_elements (PList (map PStr texts)))
              = map (\<lambda>t. format_text_for_embedding ex (PStr t) (PBool q)) texts"
    by (simp add: comp_def)
  have pooled_b: "pooled_of s (PList (map (\<lambda>t. format_text_for_embedding ex (PStr t) (PBool q))
                                  texts)) = Inr pb"
    using pooled_of_handles[OF tk md eb hb(1)] p(1) by (simp only: eb')
  have pooled_1: "pooled_of s (format_text_for_embedding ex (PStr (texts ! i)) (PBool q)) = Inr p1"
    using pooled_of_handles[OF tk md e1 h1(1)] p(2) by (simp add: e1')
  have gb: "generate_embeddings ex s (PList (map PStr texts)) (PBool q)
              = (Inr (tolist (normalize pb)), s)"
  proof -
    have "generate_embeddings ex s (PList (map PStr texts)) (PBool q) =
            (case pooled_of s (PList (map (\<lambda>text. format_text_for_embedding ex text (PBool q))
                                        (py_elements (PList (map PStr texts))))) of
               Inl e \<Rightarrow> (Inl e, s)
             | Inr p \<Rightarrow> (Inr (tolist (normalize p)), s))"
      by (rule generate_embeddings_pooled[OF rdy]) (use ne in simp_all)
    then show ?thesis by (simp only: elts pooled_b sum.case)
  qed
  have g1: "generate_embedding ex s (PStr (texts ! i)) (PBool q)
              = (Inr (row_tolist (normalize p1) 0), s)"
    by (simp add: generate_embedding_pooled[OF rdy] pooled_1 p(4))
  have "tolist (normalize pb) ! i = row_tolist (normalize pb) i"
    using i p(3) len by (simp add: tolist_nth rows_normalize)
  also have "\<dots> = row_tolist (normalize p1) 0"
    by (simp only: row_tolist_normalize p(5))
  finally have "tolist (normalize pb) ! i = row_tolist (normalize p1) 0" .
  moreover have "length (tolist (normalize pb)) = length texts"
    by (simp add: tolist_def rows_normalize p(3) len)
  ultimately show ?thesis using gb g1 by simp
qed


theorem batch_agrees_with_single_witness:
  "byte_tokenizer (PList [PStr ''a'', PStr ''bc'']) 512 = Inr (pad_batch 0 [[97], [98, 99]])
   \<and> byte_tokenizer (PStr ''a'') 512 = Inr (pad_batch 0 [[97]])
   \<and> (\<exists>hb h1. lookup_model (pad_batch 0 [[97], [98, 99]]) = Inr hb
          \<and> lookup_model (pad_batch 0 [[97]]) = Inr h1
          \<and> shaped_like hb (pad_batch 0 [[97], [98, 99]]) \<and> shaped_like h1 (pad_batch 0 [[97]])
          \<and> same_on_tokens hb 0 h1)
   \<and> (\<exists>vs v. generate_embeddings (demo_extern lookup_model) (demo_state lookup_model)
                 (PList (map PStr [''a'', ''bc''])) (PBool False)
               = (Inr vs, demo_state lookup_model)
          \<and> generate_embedding (demo_extern lookup_model) (demo_state lookup_model)
                 (PStr ([''a'', ''bc''] ! 0)) (PBool False)
               = (Inr v, demo_state lookup_model)
          \<and> length vs = length [''a'', ''bc''] \<and> vs ! 0 = v)"
proof -
  let ?s = "demo_state lookup_model" and ?ex = "demo_extern lookup_model"
  let ?eb = "pad_batch 0 [[97], [98, 99]]" and ?e1 = "pad_batch 0 [[97]]"
  have tk: "tokenizer ?s = Some (hf_tokenizer byte_enc 0 reject)"
    and md: "model ?s = Some lookup_model"
    by (simp_all add: demo_state_def byte_tokenizer_def)
  have i: "0 < length [''a'', ''bc'']" by simp
  have eb: "hf_tokenizer byte_enc 0 reject
              (PList (map (\<lambda>t. format_text_for_embedding ?ex (PStr t) (PBool False)) [''a'', ''bc'']))
              512 = Inr ?eb"
    by (simp add: hf_tokenizer_def byte_enc_def format_text_for_embedding_def)
  have e1: "hf_tokenizer byte_enc 0 reject
              (format_text_for_embedding ?ex (PStr ([''a'', ''bc''] ! 0)) (PBool False)) 512
            = Inr ?e1"
    by (simp add: hf_tokenizer_def byte_enc_def format_text_for_embedding_def)
  obtain hb h1 where h: "lookup_model ?eb = Inr hb" "lookup_model ?e1 = Inr h1"
    "shaped_like hb ?eb" "shaped_like h1 ?e1" "same_on_tokens hb 0 h1"
    by (simp add: lookup_model_def shaped_like_def same_on_tokens_def pad_batch_def upt_rec)
  have t: "byte_tokenizer (PList [PStr ''a'', PStr ''bc'']) 512 = Inr ?eb"
    "byte_tokenizer (PStr ''a'') 512 = Inr ?e1"
    by (simp_all add: byte_tokenizer_def hf_tokenizer_def byte_enc_def)
  show ?thesis
    using batch_agrees_with_single[OF tk md i eb e1 h(1,3,2,4,5)] t h by blast
qed

subsection \<open>C3: unit norm\<close>

text \<open>
  C3 is stated for every text. \<open>normalize\<close> divides by the larger of the norm and \<open>eps\<close>:
  a pooled vector of zeros, as a model of zero hidden states gives, is returned as it is,
  with norm 0. And the norm is computed from the squares: with a hidden value of \<open>2 ^ 70\<close>
  the square is beyond the largest 32-bit float, the norm is infinite, and the vector
  returned is again the zero vector.
\<close>

theorem unit_norm_counterexample:
  "generate_embedding (demo_extern zero_model) (demo_state zero_model) (PStr ''ab'') (PBool False)
     = (Inr [Fin 0, Fin 0], demo_state zero_model)
   \<and> generate_embedding (demo_extern huge_model) (demo_state huge_model) (PStr ''ab'') (PBool False)
     = (Inr [Fin 0, Fin 0], demo_state huge_model)
   \<and> l2_norm [Fin 0, Fin 0] = Fin 0
   \<and> \<not> unit_within (1 / 10 ^ 4) [Fin 0, Fin 0]"
  by (simp add: pipeline_defs demo_state_def zero_model_def huge_model_def unit_within_def
        upt_rec)

text \<open>
  C3, amended. When the Euclidean norm that \<open>normalize\<close> computes of the pooled vector of a
  row is finite and at least \<open>eps\<close>, the embedding returned for that row, by
  \<open>generate_embedding\<close> (row 0) and by \<open>generate_embeddings\<close>, has a Euclidean norm within
  \<open>1 / 10 ^ 4\<close> of 1.
\<close>

theorem unit_norm:
  assumes "ready s" and "pooled_of s x = Inr p" and "b < rows p"
      and "l2_norm (row_tolist p b) = Fin n" and "eps \<le> n"
  shows "(x = format_text_for_embedding ex text q \<and> b = 0 \<longrightarrow>
            (\<exists>v. generate_embedding ex s text q = (Inr v, s) \<and> unit_within (1 / 10 ^ 4) v))
       \<and> (py_truthy texts \<and> isinstance_list texts
            \<and> x = PList (map (\<lambda>text. format_text_for_embedding ex text q) (py_elements texts)) \<longrightarrow>
            (\<exists>vs. generate_embeddings ex s texts q = (Inr vs, s) \<and> length vs = rows p
                  \<and> unit_within (1 / 10 ^ 4) (vs ! b)))"
proof -
  have "l2_norm (row_tolist (normalize p) b) = Fin 1"
    using normalized_row_unit[OF assms(4,5)] by (simp add: row_tolist_normalize)
  then have unit: "unit_within (1 / 10 ^ 4) (row_tolist (normalize p) b)"
    by (simp add: unit_within_def)
  show ?thesis
  proof (intro conjI impI)
    assume "x = format_text_for_embedding ex text q \<and> b = 0"
    then show "\<exists>v. generate_embedding ex s text q = (Inr v, s) \<and> unit_within (1 / 10 ^ 4) v"
      using assms(1,2,3) unit by (simp add: generate_embedding_pooled)
  next
    assume a: "py_truthy texts \<and> isinstance_list texts
      \<and> x = PList (map (\<lambda>text. format_text_for_embedding ex text q) (py_elements texts))"
    then have "generate_embeddings ex s texts q = (Inr (tolist (normalize p)), s)"
      using assms(1,2) by (simp add: generate_embeddings_pooled)
    moreover have "length (tolist (normalize p)) = rows p"
      by (simp add: tolist_def rows_normalize)
    moreover have "unit_within (1 / 10 ^ 4) (tolist (normalize p) ! b)"
      using assms(3) unit by (simp add: tolist_nth rows_normalize)
    ultimately show "\<exists>vs. generate_embeddings ex s texts q = (Inr vs, s) \<and> length vs = rows p
                  \<and> unit_within (1 / 10 ^ 4) (vs ! b)" by simp
  qed
qed

theorem unit_norm_witness:
  "ready (demo_state constant_model)
   \<and> eps \<le> 5
   \<and> generate_embeddings (demo_extern constant_model) (demo_state constant_model)
        (PList [PStr ''ab'', PStr ''c'']) (PBool False)
       = (Inr [[Fin (3/5), Fin (4/5)], [Fin (3/5), Fin (4/5)]], demo_state constant_model)
   \<and> unit_within (1 / 10 ^ 4) [Fin (3/5), Fin (4/5)]"
proof -
  let ?s = "demo_state constant_model" and ?ex = "demo_extern constant_model"
  let ?texts = "PList [PStr ''ab'', PStr ''c'']"
  obtain p where p: "pooled_of ?s ?texts = Inr p" "rows p = 2"
    "row_tolist p 1 = [Fin 3, Fin 4]"
    by (simp add: pooled_defs demo_state_def constant_model_def upt_rec)
  have r: "ready ?s" by (simp add: ready_def demo_state_def)
  have n: "l2_norm (row_tolist p 1) = Fin 5"
    unfolding p(3) by (simp add: l2_norm_def fl_sum_def sqrt25 overflow_def max_float_def)
  have e: "eps \<le> 5" by (simp add: eps_def)
  have b: "(1::nat) < rows p" by (simp add: p)
  have v: "generate_embeddings ?ex ?s ?texts (PBool False)
       = (Inr [[Fin (3/5), Fin (4/5)], [Fin (3/5), Fin (4/5)]], ?s)"
    by (simp add: pipeline_defs demo_state_def constant_model_def sqrt25 upt_rec)
  have "unit_within (1 / 10 ^ 4) [Fin (3/5), Fin (4/5)]"
    using unit_norm[OF r p(1) b n e, of ?ex "PStr ''ab''" "PBool False" ?texts] v
    by (simp add: format_text_for_embedding_def)
  then show ?thesis using r e v by simp
qed

subsection \<open>C4: the formatter\<close>

text \<open>
  C4. For every string, \<open>format_text_for_embedding\<close> with a true flag returns the
  instruction line, a newline, \<open>Query: \<close> and the text; with a false flag it returns the
  text unchanged. The function reads no state and has a value on every string, the empty
  one included.
\<close>

theorem format_text_contract:
  "format_text_for_embedding ex (PStr text) (PBool True) =
     PStr (''Instruct: Given a web search query, retrieve relevant passages that answer the query\<newline>Query: '' @ text)
   \<and> format_text_for_embedding ex (PStr text) (PBool False) = PStr text"
  by (simp add: format_text_for_embedding_def task_description_def)

theorem format_text_contract_witness:
  "format_text_for_embedding (demo_extern zero_model) (PStr ''what is rust'') (PBool True) =
     PStr ''Instruct: Given a web search query, retrieve relevant passages that answer the query\<newline>Query: what is rust''
   \<and> format_text_for_embedding (demo_extern zero_model) (PStr ''what is rust'') (PBool False)
       = PStr ''what is rust''"
  using format_text_contract[of "demo_extern zero_model" "''what is rust''"] by simp

subsection \<open>C5: when the model is loaded\<close>




subsection \<open>C6: validation of a batch\<close>

text \<open>
  The dispatcher tests that \<^verbatim>\<open>texts\<close> is true and a list. For a \<^verbatim>\<open>generate_embeddings\<close>
  command whose \<^verbatim>\<open>texts\<close> field is missing, an empty list or not a list, the response is
  the error \<^verbatim>\<open>No texts provided or invalid format\<close> and the state is untouched: the
  pipeline, whose first step is \<open>initialize_model\<close>, is not entered.
\<close>

lemma batch_validation:
  assumes "map_of kvs ''command'' = Some (PStr ''generate_embeddings'')"
      and "\<not> (\<exists>x xs. map_of kvs ''texts'' = Some (PList (x # xs)))"
  shows "process_command ex s (PDict kvs) =
           (error_response ''No texts provided or invalid format'', s)"
proof -
  have "\<not> py_truthy v \<or> \<not> isinstance_list v" if "map_of kvs ''texts'' = Some v" for v
    using that assms(2) by (cases v) (auto simp add: neq_Nil_conv)
  then show ?thesis using assms(1)
    by (cases "map_of kvs ''texts''") (auto simp add: pc_generate_embeddings)
qed

lemma batch_validation_empty_list:
  "process_command (demo_extern zero_model) module_state
        (PDict [(''command'', PStr ''generate_embeddings''), (''texts'', PList [])])
       = (error_response ''No texts provided or invalid format'', module_state)"
  using batch_validation[of "[(''command'', PStr ''generate_embeddings''), (''texts'', PList [])]"
          "demo_extern zero_model" module_state]
  by simp

text \<open>
  C6 asks for the same error, and for the pipeline not to be entered, when \<^verbatim>\<open>texts\<close> is a
  list with an element that is not a string. The elements are not tested: the command
  \<^verbatim>\<open>{"command": "generate_embeddings", "texts": [1], "is_query": true}\<close> goes through the
  pipeline, where the f-string of the formatter prints the number, and is answered with
  the embedding of the instruction followed by \<^verbatim>\<open>1\<close>.
\<close>

theorem batch_with_non_string_element:
  "process_command (demo_extern constant_model) (demo_state constant_model)
     (PDict [(''command'', PStr ''generate_embeddings''), (''texts'', PList [PInt 1]),
             (''is_query'', PBool True)])
   = (embeddings_response [[Fin (3/5), Fin (4/5)]], demo_state constant_model)"
  by (simp add: pc_generate_embeddings pipeline_defs demo_state_def constant_model_def sqrt25
        upt_rec task_description_def int_str_def digit_def)

theorem batch_with_non_string_element_witness:
  "fst (process_command (demo_extern constant_model) (demo_state constant_model)
     (PDict [(''command'', PStr ''generate_embeddings''), (''texts'', PList [PInt 1]),
             (''is_query'', PBool True)]))
   \<noteq> error_response ''No texts provided or invalid format''"
  using batch_with_non_string_element
  by (simp add: embeddings_response_def error_response_def)

subsection \<open>C7: one response per line\<close>

text \<open>
  What holds of the code. An exception that leaves the body of \<open>process_command\<close> becomes
  the error object with its message, and the state is the one the body reached.
\<close>

lemma body_exception_becomes_error:
  "process_command_body ex s cj = (Inl e, s1) \<Longrightarrow>
   process_command ex s cj = (error_response (exn_msg e), s1)"
  by (simp add: process_command_def)

text \<open>A command that is not a dictionary is answered with the message of the failed \<^verbatim>\<open>get\<close>.\<close>

lemma not_a_dictionary_error:
  assumes "\<forall>kvs. cj \<noteq> PDict kvs"
  shows "process_command ex s cj =
           (error_response ([CHR 0x27] @ type_name cj @ [CHR 0x27]
              @ '' object has no attribute '' @ [CHR 0x27] @ ''get'' @ [CHR 0x27]), s)"
  using assms by (cases cj) (simp_all add: pc_no_get raise_def)

text \<open>A missing or empty text is answered with \<^verbatim>\<open>No text provided\<close>.\<close>

lemma no_text_error:
  assumes "map_of kvs ''command'' = Some (PStr ''generate_embedding'')"
      and "case map_of kvs ''text'' of None \<Rightarrow> True | Some text \<Rightarrow> \<not> py_truthy text"
  shows "process_command ex s (PDict kvs) = (error_response ''No text provided'', s)"
  using assms by (simp add: pc_generate_embedding split: option.splits)

text \<open>
  A failure of the initialization, in each of the three commands that initialize: the
  response is the error object with the message of the loader's exception.
\<close>

lemma initialization_failure_error:
  assumes "initialize_model ex s = (Inl e, s1)"
  shows "py_get cj ''command'' PNone = Inr (PStr ''initialize'') \<longrightarrow>
           process_command ex s cj = (error_response (exn_msg e), s1)"
    and "map_of kvs ''command'' = Some (PStr ''generate_embedding'')
         \<and> map_of kvs ''text'' = Some text \<and> py_truthy text \<longrightarrow>
           process_command ex s (PDict kvs) = (error_response (exn_msg e), s1)"
    and "map_of kvs ''command'' = Some (PStr ''generate_embeddings'')
         \<and> map_of kvs ''texts'' = Some texts \<and> py_truthy texts \<and> isinstance_list texts \<longrightarrow>
           process_command ex s (PDict kvs) = (error_response (exn_msg e), s1)"
  using assms
  by (simp_all add: pc_initialize pc_generate_embedding pc_generate_embeddings
        generate_embedding_def generate_embeddings_def)

text \<open>
  A failure of the tokenizer, of the model or of the pooling, in a state where both
  handles are set: the response is the error object with the message of the exception,
  for a single text and for a batch.
\<close>

lemma pipeline_failure_error:
  assumes "ready s"
  shows "map_of kvs ''command'' = Some (PStr ''generate_embedding'')
         \<and> map_of kvs ''text'' = Some text \<and> py_truthy text
         \<and> pooled_of s (format_text_for_embedding ex text
               (case map_of kvs ''is_query'' of Some q \<Rightarrow> q | None \<Rightarrow> PBool False)) = Inl e \<longrightarrow>
           process_command ex s (PDict kvs) = (error_response (exn_msg e), s)"
    and "map_of kvs ''command'' = Some (PStr ''generate_embeddings'')
         \<and> map_of kvs ''texts'' = Some texts \<and> py_truthy texts \<and> isinstance_list texts
         \<and> pooled_of s (PList (map (\<lambda>text. format_text_for_embedding ex text
               (case map_of kvs ''is_query'' of Some q \<Rightarrow> q | None \<Rightarrow> PBool False))
               (py_elements texts))) = Inl e \<longrightarrow>
           process_command ex s (PDict kvs) = (error_response (exn_msg e), s)"
  using assms
  by (simp_all add: pc_generate_embedding pc_generate_embeddings
        generate_embedding_pooled generate_embeddings_pooled)

text \<open>
  A line that was read: the decoder's \<^verbatim>\<open>JSONDecodeError\<close> is answered with
  \<^verbatim>\<open>Invalid JSON\<close>, another exception of the decoder with its message, and a decoded
  command with the response of \<open>process_command\<close>. In each case exactly one response is
  written, and the loop goes on with the next read.
\<close>

lemma handle_line_response:
  "handle_line ex s line =
     (case json_loads ex line of
        Inl e \<Rightarrow>
          emit (Stdout (error_response
                  (if exn_class e = JSONDecodeError then ''Invalid JSON'' else exn_msg e)))
            (emit (StdinLine line) s)
      | Inr cj \<Rightarrow>
          emit (Stdout (fst (process_command ex (emit (StdinLine line) s) cj)))
            (snd (process_command ex (emit (StdinLine line) s) cj)))"
  by (simp add: handle_line_def Let_def split: sum.splits prod.splits)

lemma per_line_containment:
  "(is_error_response (fst (process_command ex s cj))
      \<or> is_success_response (fst (process_command ex s cj)))
   \<and> (\<exists>r. responses (handle_line ex s line) = responses s @ [r]
          \<and> (is_error_response r \<or> is_success_response r))
   \<and> main_loop ex s (Inr line # reads) = main_loop ex (handle_line ex s line) reads
   \<and> length (responses (snd (main_loop ex s reads)))
       = length (responses s) + length (lines_read reads)"
  using process_command_shape responses_handle_line responses_main_loop by simp

text \<open>
  C7 asks for one response for every input line and for a service that goes on after any
  single bad line. The handlers of \<open>main\<close> stand around the decoding of the JSON text and
  around \<open>process_command\<close>, not around the read of the line: when the first line of
  standard input holds a byte that is not valid UTF-8, the read raises, no response is
  written for it, the process ends, and the \<^verbatim>\<open>initialize\<close> command on the second line is
  never read.
\<close>

theorem undecodable_line_ends_service:
  \<open>main (demo_extern zero_model) [Inl undecodable, Inr ''{"command": "initialize"}'']
   = (Some undecodable,
      \<lparr>tokenizer = Some byte_tokenizer, model = Some zero_model,
       events = [Stderr ''E5 Embedding Service started'',
                 Stderr ''Initializing E5 model...'',
                 LoadTokenizer ''intfloat/multilingual-e5-large-instruct'',
                 LoadModel ''intfloat/multilingual-e5-large-instruct'',
                 Stderr ''Model initialized: intfloat/multilingual-e5-large-instruct'']\<rparr>)\<close>
  by (simp add: main_def initialize_model_def module_state_def emit_def demo_extern_def
        MODEL_NAME_def)

theorem undecodable_line_ends_service_witness:
  \<open>fst (main (demo_extern zero_model) [Inl undecodable, Inr ''{"command": "initialize"}''])
     = Some undecodable
   \<and> responses (snd (main (demo_extern zero_model)
                       [Inl undecodable, Inr ''{"command": "initialize"}''])) = []
   \<and> responses (snd (main (demo_extern zero_model) [Inr ''{"command": "initialize"}'']))
     = [status_initialized]\<close>
proof -
  have \<open>responses (snd (main (demo_extern zero_model) [Inr ''{"command": "initialize"}'']))
     = [status_initialized]\<close>
    by (simp add: main_def initialize_model_def handle_line_def pc_initialize demo_defs emit_def
          responses_def)
  then show ?thesis using undecodable_line_ends_service by (simp add: responses_def)
qed

subsection \<open>C8: initialize is idempotent\<close>

text \<open>
  C8. When the tokenizer and the model are set, an \<^verbatim>\<open>initialize\<close> command leaves the state
  as it is and answers \<^verbatim>\<open>{"status": "initialized"}\<close>; and after an \<^verbatim>\<open>initialize\<close> command
  that answered so, a second one answers the same and changes nothing.
\<close>

theorem initialize_idempotent:
  assumes "py_get cj ''command'' PNone = Inr (PStr ''initialize'')"
  shows "(tokenizer s \<noteq> None \<and> model s \<noteq> None \<longrightarrow>
            process_command ex s cj = (status_initialized, s))
       \<and> (fst (process_command ex s cj) = status_initialized \<longrightarrow>
            process_command ex (snd (process_command ex s cj)) cj
              = (status_initialized, snd (process_command ex s cj)))"
proof (intro conjI impI)
  assume "tokenizer s \<noteq> None \<and> model s \<noteq> None"
  then show "process_command ex s cj = (status_initialized, s)"
    using assms by (simp add: pc_initialize ready_initialize)
next
  assume ok: "fst (process_command ex s cj) = status_initialized"
  obtain r s1 where i: "initialize_model ex s = (r, s1)" by (cases "initialize_model ex s")
  have "r = Inr ()" using ok assms i
    by (cases r) (simp_all add: pc_initialize status_initialized_def error_response_def)
  then have "tokenizer s1 \<noteq> None \<and> model s1 \<noteq> None"
    using i by (auto simp add: initialize_model_def emit_def Let_def split: if_splits sum.splits)
  moreover have "snd (process_command ex s cj) = s1"
    using assms i \<open>r = Inr ()\<close> by (simp add: pc_initialize)
  ultimately show "process_command ex (snd (process_command ex s cj)) cj
              = (status_initialized, snd (process_command ex s cj))"
    using assms by (simp add: pc_initialize ready_initialize)
qed

theorem initialize_idempotent_witness:
  "py_get (PDict [(''command'', PStr ''initialize'')]) ''command'' PNone = Inr (PStr ''initialize'')
   \<and> tokenizer (demo_state zero_model) \<noteq> None \<and> model (demo_state zero_model) \<noteq> None
   \<and> process_command (demo_extern zero_model) (demo_state zero_model)
        (PDict [(''command'', PStr ''initialize'')])
       = (status_initialized, demo_state zero_model)
   \<and> process_command (demo_extern zero_model)
        (snd (process_command (demo_extern zero_model) (demo_state zero_model)
                (PDict [(''command'', PStr ''initialize'')])))
        (PDict [(''command'', PStr ''initialize'')])
       = (status_initialized, demo_state zero_model)"
proof -
  have g: "py_get (PDict [(''command'', PStr ''initialize'')]) ''command'' PNone
             = Inr (PStr ''initialize'')" by simp
  have r: "tokenizer (demo_state zero_model) \<noteq> None \<and> model (demo_state zero_model) \<noteq> None"
    by (simp add: demo_state_def)
  show ?thesis
    using initialize_idempotent[OF g, of "demo_state zero_model" "demo_extern zero_model"] g r
    by simp
qed

subsection \<open>C9: determinism\<close>

text \<open>
  C9. With the collaborators fixed, a second call of \<open>generate_embedding\<close> on the same text
  and flag returns what the first call returned, from every state in which the model is
  not set without the tokenizer; the result depends on the state only through the two
  handles; and the states of a run are of that kind: the state of a fresh module is, and
  every command and every line keep it so.
\<close>

theorem generate_embedding_deterministic:
  "(handles_ok s \<longrightarrow>
      fst (generate_embedding ex (snd (generate_embedding ex s text q)) text q)
        = fst (generate_embedding ex s text q))
   \<and> (tokenizer s' = tokenizer s \<and> model s' = model s \<longrightarrow>
        fst (generate_embedding ex s' text q) = fst (generate_embedding ex s text q))
   \<and> handles_ok module_state
   \<and> (handles_ok s \<longrightarrow> handles_ok (snd (process_command ex s cj)))
   \<and> (handles_ok s \<longrightarrow> handles_ok (handle_line ex s line))"
proof -
  have "handles_ok s \<longrightarrow>
      fst (generate_embedding ex (snd (generate_embedding ex s text q)) text q)
        = fst (generate_embedding ex s text q)"
    using initialize_model_again[where ex=ex and s=s]
    by (auto simp add: generate_embedding_snd intro!: generate_embedding_cong)
  moreover have "tokenizer s' = tokenizer s \<and> model s' = model s \<longrightarrow>
        fst (generate_embedding ex s' text q) = fst (generate_embedding ex s text q)"
    using initialize_model_handles[where s=s and s'=s' and ex=ex]
    by (auto intro!: generate_embedding_cong)
  ultimately show ?thesis
    using handles_ok_module_state handles_ok_process_command handles_ok_handle_line by blast
qed

theorem generate_embedding_deterministic_witness:
  "handles_ok module_state
   \<and> fst (generate_embedding (demo_extern constant_model) module_state (PStr ''ab'') (PBool False))
       = Inr [Fin (3/5), Fin (4/5)]
   \<and> fst (generate_embedding (demo_extern constant_model)
            (snd (generate_embedding (demo_extern constant_model) module_state
                    (PStr ''ab'') (PBool False)))
            (PStr ''ab'') (PBool False))
       = Inr [Fin (3/5), Fin (4/5)]"
proof -
  have h: "handles_ok module_state" by (simp add: handles_ok_def module_state_def)
  have v: "fst (generate_embedding (demo_extern constant_model) module_state (PStr ''ab'') (PBool False))
       = Inr [Fin (3/5), Fin (4/5)]"
    by (simp add: pipeline_defs demo_defs emit_def constant_model_def sqrt25 upt_rec)
  show ?thesis
    using generate_embedding_deterministic[of module_state "demo_extern constant_model"
            "PStr ''ab''" "PBool False" module_state] h v
    by simp
qed

subsection \<open>C10: a command object without a command\<close>

text \<open>
  C10. A dictionary without the key \<^verbatim>\<open>command\<close> is answered with
  \<^verbatim>\<open>{"error": "Unknown command: None"}\<close>, and the state is unchanged.
\<close>

theorem missing_command_unknown:
  "map_of kvs ''command'' = None \<Longrightarrow>
   process_command ex s (PDict kvs) = (error_response ''Unknown command: None'', s)"
  by (simp add: pc_unknown)

theorem missing_command_unknown_witness:
  "map_of [(''text'', PStr ''a'')] ''command'' = None
   \<and> process_command (demo_extern zero_model) module_state (PDict [(''text'', PStr ''a'')])
       = (error_response ''Unknown command: None'', module_state)"
  using missing_command_unknown[of "[(''text'', PStr ''a'')]" "demo_extern zero_model" module_state]
  by simp

end
